theory Spec2Isabelle
  imports Complex_Main "HOL-Library.Word"
begin

unbundle bit_operations_syntax

section \<open>Values, text and bytes\<close>

text \<open>
  A Python 3 \<^verbatim>\<open>str\<close> is a sequence of Unicode code points, a \<^verbatim>\<open>bytes\<close> object a
  sequence of integers below 256. Code points are natural numbers here, so that the
  result of decoding UTF-8 fits the type; \<open>ustr\<close> turns an ASCII literal into text.
\<close>

type_synonym codepoint = nat
type_synonym unicode = "codepoint list"
type_synonym byte = "8 word"

definition ustr :: "string \<Rightarrow> unicode" where
  "ustr s = map of_char s"

text \<open>
  The values that reach the sanitizer and the connector as login, password, user DN
  or bind identity: \<^verbatim>\<open>None\<close>, a \<^verbatim>\<open>str\<close> or a \<^verbatim>\<open>bytes\<close> object.
\<close>

datatype py_value = PyNone | Str unicode | Bytes "byte list"

text \<open>Python's truth value: \<^verbatim>\<open>None\<close>, \<^verbatim>\<open>''\<close> and \<^verbatim>\<open>b''\<close> are falsy.\<close>

fun truthy :: "py_value \<Rightarrow> bool" where
  "truthy PyNone = False"
| "truthy (Str t) = (t \<noteq> [])"
| "truthy (Bytes bs) = (bs \<noteq> [])"

datatype error =
    ConfigurationError
  | LDAPException
  | KeyError
  | ValueError
  | ZeroDivisionError

section \<open>Strict UTF-8 decoding\<close>

text \<open>
  \<^verbatim>\<open>s.decode('utf-8')\<close> accepts exactly the well-formed byte sequences of the
  Unicode standard (no overlong forms, no surrogates, nothing above U+10FFFF) and
  raises \<^verbatim>\<open>UnicodeDecodeError\<close> otherwise; \<open>None\<close> is that exception.
\<close>

definition cont :: "byte \<Rightarrow> bool" where
  "cont b = (0x80 \<le> b \<and> b \<le> 0xBF)"

definition low6 :: "byte \<Rightarrow> nat" where
  "low6 b = unat b - 0x80"

fun utf8_decode :: "byte list \<Rightarrow> unicode option" where
  "utf8_decode [] = Some []"
| "utf8_decode [b] =
     (if b \<le> 0x7F then Some [unat b] else None)"
| "utf8_decode [b, c1] =
     (if b \<le> 0x7F then map_option ((#) (unat b)) (utf8_decode [c1])
      else if 0xC2 \<le> b \<and> b \<le> 0xDF \<and> cont c1
        then Some [(unat b - 0xC0) * 64 + low6 c1]
      else None)"
| "utf8_decode [b, c1, c2] =
     (if b \<le> 0x7F then map_option ((#) (unat b)) (utf8_decode [c1, c2])
      else if 0xC2 \<le> b \<and> b \<le> 0xDF \<and> cont c1
        then map_option ((#) ((unat b - 0xC0) * 64 + low6 c1)) (utf8_decode [c2])
      else if 0xE0 \<le> b \<and> b \<le> 0xEF \<and> cont c1 \<and> cont c2
              \<and> (b = 0xE0 \<longrightarrow> 0xA0 \<le> c1) \<and> (b = 0xED \<longrightarrow> c1 \<le> 0x9F)
        then Some [(unat b - 0xE0) * 4096 + low6 c1 * 64 + low6 c2]
      else None)"
| "utf8_decode (b # c1 # c2 # c3 # rest) =
     (if b \<le> 0x7F then map_option ((#) (unat b)) (utf8_decode (c1 # c2 # c3 # rest))
      else if 0xC2 \<le> b \<and> b \<le> 0xDF \<and> cont c1
        then map_option ((#) ((unat b - 0xC0) * 64 + low6 c1)) (utf8_decode (c2 # c3 # rest))
      else if 0xE0 \<le> b \<and> b \<le> 0xEF \<and> cont c1 \<and> cont c2
              \<and> (b = 0xE0 \<longrightarrow> 0xA0 \<le> c1) \<and> (b = 0xED \<longrightarrow> c1 \<le> 0x9F)
        then map_option ((#) ((unat b - 0xE0) * 4096 + low6 c1 * 64 + low6 c2))
               (utf8_decode (c3 # rest))
      else if 0xF0 \<le> b \<and> b \<le> 0xF4 \<and> cont c1 \<and> cont c2 \<and> cont c3
              \<and> (b = 0xF0 \<longrightarrow> 0x90 \<le> c1) \<and> (b = 0xF4 \<longrightarrow> c1 \<le> 0x8F)
        then map_option
               ((#) ((unat b - 0xF0) * 262144 + low6 c1 * 4096 + low6 c2 * 64 + low6 c3))
               (utf8_decode rest)
      else None)"

section \<open>The search-string sanitizer\<close>

text \<open>
  \<^verbatim>\<open>_escape_for_search = {'*': '\\2A', '(': '\\28', ')': '\\29', '\\': '\\5C', '\0': '\\00'}\<close>
  The backslash is code point \<open>0x5C\<close>.
\<close>

definition escape_for_search_table :: "(codepoint \<times> unicode) list" where
  "escape_for_search_table =
     [(of_char CHR ''*'', 0x5C # ustr ''2A''),
      (of_char CHR ''('', 0x5C # ustr ''28''),
      (of_char CHR '')'', 0x5C # ustr ''29''),
      (0x5C, 0x5C # ustr ''5C''),
      (0, 0x5C # ustr ''00'')]"

text \<open>\<^verbatim>\<open>_escape_for_search.get(c, c)\<close>: the table entry, or the character itself.\<close>

definition table_get :: "codepoint \<Rightarrow> unicode" where
  "table_get c = (case map_of escape_for_search_table c of Some e \<Rightarrow> e | None \<Rightarrow> [c])"

text \<open>
  \<^verbatim>\<open>'%02x' % n\<close>: the lowercase hexadecimal digits of \<open>n\<close>, padded with zeros on the
  left to at least two characters.
\<close>

definition hexdigit :: "nat \<Rightarrow> codepoint" where
  "hexdigit d = (if d < 10 then of_char CHR ''0'' + d else of_char CHR ''a'' + (d - 10))"

fun hex_digits :: "nat \<Rightarrow> unicode" where
  "hex_digits n = (if n < 16 then [hexdigit n] else hex_digits (n div 16) @ [hexdigit (n mod 16)])"

declare hex_digits.simps [simp del]

definition fmt_02x :: "nat \<Rightarrow> unicode" where
  "fmt_02x n = (let ds = hex_digits n in replicate (2 - length ds) (of_char CHR ''0'') @ ds)"

text \<open>
  \<^verbatim>\<open>
  def escape_for_search(s):
      if not s:
          return s
      if isinstance(s, bytes):
          try:
              s = s.decode('utf-8')
          except UnicodeDecodeError:
              return ''.join('\\%02x' % _ord(b) for b in s)
      return ''.join((_escape_for_search.get(c, c) for c in s))
  \<close>
\<close>

definition escape_for_search :: "py_value \<Rightarrow> py_value" where
  "escape_for_search s =
     (if \<not> truthy s then s
      else case s of
          Bytes bs \<Rightarrow>
            (case utf8_decode bs of
               None \<Rightarrow> Str (concat (map (\<lambda>b. 0x5C # fmt_02x (unat b)) bs))
             | Some t \<Rightarrow> Str (concat (map table_get t)))
        | Str t \<Rightarrow> Str (concat (map table_get t))
        | PyNone \<Rightarrow> s)"


section \<open>Template substitution\<close>

text \<open>
  \<^verbatim>\<open>str(v)\<close> for the values above. The \<^verbatim>\<open>repr\<close> of a bytes object picks the
  quote, escapes it and the backslash, writes tab, newline and carriage return
  as \<^verbatim>\<open>\t \n \r\<close>, and every byte outside the printable ASCII range as
  \<^verbatim>\<open>\xhh\<close>.
\<close>

definition repr_byte :: "byte \<Rightarrow> byte \<Rightarrow> unicode" where
  "repr_byte quote c =
     (if c = quote \<or> c = 0x5C then [0x5C, unat c]
      else if c = 0x09 then 0x5C # ustr ''t''
      else if c = 0x0A then 0x5C # ustr ''n''
      else if c = 0x0D then 0x5C # ustr ''r''
      else if c < 0x20 \<or> 0x7F \<le> c
        then 0x5C # ustr ''x'' @ [hexdigit (unat c div 16), hexdigit (unat c mod 16)]
      else [unat c])"

definition bytes_repr :: "byte list \<Rightarrow> unicode" where
  "bytes_repr bs =
     (let quote = (if 0x27 \<in> set bs \<and> 0x22 \<notin> set bs then 0x22 else 0x27)
      in ustr ''b'' @ [unat quote] @ concat (map (repr_byte quote) bs) @ [unat quote])"

fun py_str :: "py_value \<Rightarrow> unicode" where
  "py_str PyNone = ustr ''None''"
| "py_str (Str t) = t"
| "py_str (Bytes bs) = bytes_repr bs"

text \<open>
  \<^verbatim>\<open>template % kw\<close> with a dictionary on the right, for the templates the
  configuration methods document: literal text, \<^verbatim>\<open>%%\<close> and \<^verbatim>\<open>%(name)s\<close>. The
  scanner is a state machine over the template; a key may contain balanced
  parentheses, a missing key raises \<^verbatim>\<open>KeyError\<close> as soon as the key is read, and
  a template that ends inside a directive raises \<^verbatim>\<open>ValueError\<close>. Every other
  directive is outside this fragment and is reported as \<^verbatim>\<open>ValueError\<close>, which is
  what Python raises for an unsupported format character.
\<close>

datatype fmt_state =
    Literal
  | Percent
  | Key nat unicode
  | Conversion py_value

fun cons_result :: "unicode \<Rightarrow> error + unicode \<Rightarrow> error + unicode" where
  "cons_result t (Inl e) = Inl e"
| "cons_result t (Inr r) = Inr (t @ r)"

fun format_from :: "fmt_state \<Rightarrow> unicode \<Rightarrow> (unicode \<rightharpoonup> py_value) \<Rightarrow> error + unicode" where
  "format_from Literal [] kw = Inr []"
| "format_from Literal (c # cs) kw =
     (if c = of_char CHR ''%'' then format_from Percent cs kw
      else cons_result [c] (format_from Literal cs kw))"
| "format_from Percent [] kw = Inl ValueError"
| "format_from Percent (c # cs) kw =
     (if c = of_char CHR ''%'' then cons_result [c] (format_from Literal cs kw)
      else if c = of_char CHR ''('' then format_from (Key 1 []) cs kw
      else Inl ValueError)"
| "format_from (Key n k) [] kw = Inl ValueError"
| "format_from (Key n k) (c # cs) kw =
     (if c = of_char CHR '')''
      then (if n = 1
            then (case kw k of
                    None \<Rightarrow> Inl KeyError
                  | Some v \<Rightarrow> format_from (Conversion v) cs kw)
            else format_from (Key (n - 1) (k @ [c])) cs kw)
      else if c = of_char CHR ''(''
        then format_from (Key (n + 1) (k @ [c])) cs kw
      else format_from (Key n (k @ [c])) cs kw)"
| "format_from (Conversion v) [] kw = Inl ValueError"
| "format_from (Conversion v) (c # cs) kw =
     (if c = of_char CHR ''s'' then cons_result (py_str v) (format_from Literal cs kw)
      else Inl ValueError)"

definition py_format :: "unicode \<Rightarrow> (unicode \<rightharpoonup> py_value) \<Rightarrow> error + unicode" where
  "py_format template kw = format_from Literal template kw"

section \<open>The directory client, seen through its interface\<close>

text \<open>
  The core reaches the directory only through \<^verbatim>\<open>ldap3.Connection(...)\<close> and the
  connection's \<^verbatim>\<open>search\<close>, \<^verbatim>\<open>get_response\<close>, \<^verbatim>\<open>unbind\<close> and context-manager
  exit. Every such call is recorded in the world, in order, and the client's
  answer to it is a function of the world at the moment of the call (the clock and
  all calls made so far), so that the same request may be answered differently
  each time. A call either answers or raises \<^verbatim>\<open>LDAPException\<close>.
\<close>

datatype strategy = SYNC | ASYNC | REUSABLE

datatype scope = BASE | LEVEL | SUBTREE

type_synonym server = "unicode list"

text \<open>
  The arguments of \<^verbatim>\<open>ldap3.Connection\<close> that vary between the two call sites;
  \<^verbatim>\<open>auto_bind=True, lazy=False, read_only=True\<close> are the same at both. The record
  also stands for the connection object it creates.
\<close>

record conn_args =
  conn_server :: server
  conn_user :: py_value
  conn_password :: py_value
  conn_client_strategy :: strategy
  conn_pool_name :: "unicode option"
  conn_pool_size :: "nat option"
  conn_pool_lifetime :: "nat option"

datatype call =
    Connect conn_args
  | Search conn_args unicode unicode scope "unicode list option"
  | Get_response conn_args nat
  | Exit conn_args
  | Unbind conn_args

record world =
  now :: real
  calls :: "call list"

text \<open>
  A record of the low-level response is a dictionary; the code reads the keys
  \<^verbatim>\<open>'dn'\<close> and \<^verbatim>\<open>'attributes'\<close> only. \<open>None\<close> is an absent key.
\<close>

type_synonym attrs = "(unicode \<times> unicode list) list"

record ldap_entry =
  entry_dn :: "py_value option"
  entry_attributes :: "attrs option"

text \<open>
  What the client answers: \<open>False\<close> or \<open>None\<close> is a raised \<^verbatim>\<open>LDAPException\<close>.
  \<^verbatim>\<open>get_response\<close> answers with the response, which may be \<^verbatim>\<open>None\<close>.
\<close>

record ldap3 =
  Connection_ok :: "world \<Rightarrow> conn_args \<Rightarrow> bool"
  search_ret :: "world \<Rightarrow> conn_args \<Rightarrow> unicode \<Rightarrow> unicode \<Rightarrow> scope \<Rightarrow> unicode list option \<Rightarrow> nat option"
  get_response_ret :: "world \<Rightarrow> conn_args \<Rightarrow> nat \<Rightarrow> ldap_entry list option option"
  exit_ok :: "world \<Rightarrow> conn_args \<Rightarrow> bool"
  unbind_ok :: "world \<Rightarrow> conn_args \<Rightarrow> bool"

definition record_call :: "call \<Rightarrow> world \<Rightarrow> world" where
  "record_call c w = w\<lparr>calls := calls w @ [c]\<rparr>"

definition Connection :: "ldap3 \<Rightarrow> conn_args \<Rightarrow> world \<Rightarrow> (error + conn_args) \<times> world" where
  "Connection lib a w =
     (if Connection_ok lib w a then Inr a else Inl LDAPException, record_call (Connect a) w)"

definition conn_search ::
  "ldap3 \<Rightarrow> conn_args \<Rightarrow> unicode \<Rightarrow> unicode \<Rightarrow> scope \<Rightarrow> unicode list option \<Rightarrow> world
     \<Rightarrow> (error + nat) \<times> world" where
  "conn_search lib conn base flt sc atts w =
     (case search_ret lib w conn base flt sc atts of
        None \<Rightarrow> Inl LDAPException
      | Some ret \<Rightarrow> Inr ret,
      record_call (Search conn base flt sc atts) w)"

definition conn_get_response ::
  "ldap3 \<Rightarrow> conn_args \<Rightarrow> nat \<Rightarrow> world \<Rightarrow> (error + ldap_entry list option) \<times> world" where
  "conn_get_response lib conn ret w =
     (case get_response_ret lib w conn ret of
        None \<Rightarrow> Inl LDAPException
      | Some response \<Rightarrow> Inr response,
      record_call (Get_response conn ret) w)"

definition conn_exit :: "ldap3 \<Rightarrow> conn_args \<Rightarrow> world \<Rightarrow> (error + unit) \<times> world" where
  "conn_exit lib conn w =
     (if exit_ok lib w conn then Inr () else Inl LDAPException, record_call (Exit conn) w)"

definition conn_unbind :: "ldap3 \<Rightarrow> conn_args \<Rightarrow> world \<Rightarrow> (error + unit) \<times> world" where
  "conn_unbind lib conn w =
     (if unbind_ok lib w conn then Inr () else Inl LDAPException, record_call (Unbind conn) w)"

section \<open>The timesliced query cache and the query\<close>

text \<open>
  \<^verbatim>\<open>time()\<close> returns a float and the period is a number of seconds; both are real
  numbers here (rounding is not modelled). Python's \<^verbatim>\<open>%\<close> on numbers takes the sign of
  the divisor and raises \<^verbatim>\<open>ZeroDivisionError\<close> on a zero divisor.
\<close>

definition py_mod :: "real \<Rightarrow> real \<Rightarrow> error + real" where
  "py_mod a b = (if b = 0 then Inl ZeroDivisionError else Inr (a - b * of_int \<lfloor>a / b\<rfloor>))"

text \<open>
  \<^verbatim>\<open>
  def _timeslice(period, when=None):
      return when - (when % period)
  \<close>
\<close>

definition timeslice :: "real \<Rightarrow> real \<Rightarrow> error + real" where
  "timeslice period when =
     (case py_mod when period of Inl e \<Rightarrow> Inl e | Inr r \<Rightarrow> Inr (when - r))"

type_synonym match = "py_value \<times> attrs"
type_synonym cache_key = "unicode \<times> unicode"

record LDAPQuery =
  base_dn :: unicode
  filter_tmpl :: unicode
  scope :: scope
  attributes :: "unicode list option"
  cache_period :: real
  last_timeslice :: real
  cache :: "cache_key \<rightharpoonup> match list"

text \<open>\<^verbatim>\<open>_LDAPQuery.__init__\<close>: the last bucket starts at 0 and the mapping empty.\<close>

definition LDAPQuery_init ::
  "unicode \<Rightarrow> unicode \<Rightarrow> scope \<Rightarrow> unicode list option \<Rightarrow> real \<Rightarrow> LDAPQuery" where
  "LDAPQuery_init b f sc atts period =
     \<lparr>base_dn = b, filter_tmpl = f, scope = sc, attributes = atts, cache_period = period,
      last_timeslice = 0, cache = Map.empty\<rparr>"

text \<open>
  \<^verbatim>\<open>
  def query_cache(self, cache_key):
      now = time()
      ts = _timeslice(self.cache_period, now)
      if ts > self.last_timeslice:
          self.cache = {}
          self.last_timeslice = ts
      return self.cache.get(cache_key)
  \<close>
  The query object is mutated in place; the model returns it next to the result.
\<close>

definition query_cache ::
  "LDAPQuery \<Rightarrow> cache_key \<Rightarrow> world \<Rightarrow> (error + match list option) \<times> LDAPQuery" where
  "query_cache q cache_key w =
     (case timeslice (cache_period q) (now w) of
        Inl e \<Rightarrow> (Inl e, q)
      | Inr ts \<Rightarrow>
          (let q' = (if ts > last_timeslice q
                     then q\<lparr>cache := Map.empty, last_timeslice := ts\<rparr>
                     else q)
           in (Inr (cache q' cache_key), q')))"

section \<open>The connection manager\<close>

text \<open>
  The manager as \<^verbatim>\<open>__init__\<close> leaves it: the fields \<^verbatim>\<open>connection\<close> reads. The
  client library is a field of the manager, as in the source.
\<close>

record ConnectionManager =
  ldap3 :: ldap3
  server :: server
  bind :: py_value
  passwd :: py_value
  strategy :: strategy
  pool_name :: "unicode option"
  pool_size :: "nat option"
  pool_lifetime :: "nat option"

text \<open>
  \<^verbatim>\<open>
  def connection(self, user=None, password=None):
      if user:
          conn = self.ldap3.Connection(self.server, user=user, password=password,
              client_strategy=ldap3.SYNC, auto_bind=True, lazy=False, read_only=True)
      else:
          conn = self.ldap3.Connection(self.server, user=self.bind, password=self.passwd,
              client_strategy=self.strategy, pool_name=self.pool_name,
              pool_size=self.pool_size, pool_lifetime=self.pool_lifetime,
              auto_bind=True, lazy=False, read_only=True)
      return conn
  \<close>
\<close>

definition direct_args :: "ConnectionManager \<Rightarrow> py_value \<Rightarrow> py_value \<Rightarrow> conn_args" where
  "direct_args m usr pw =
     \<lparr>conn_server = server m, conn_user = usr, conn_password = pw,
      conn_client_strategy = SYNC, conn_pool_name = None, conn_pool_size = None,
      conn_pool_lifetime = None\<rparr>"

definition pooled_args :: "ConnectionManager \<Rightarrow> conn_args" where
  "pooled_args m =
     \<lparr>conn_server = server m, conn_user = bind m, conn_password = passwd m,
      conn_client_strategy = strategy m, conn_pool_name = pool_name m,
      conn_pool_size = pool_size m, conn_pool_lifetime = pool_lifetime m\<rparr>"

definition connection ::
  "ConnectionManager \<Rightarrow> py_value \<Rightarrow> py_value \<Rightarrow> world \<Rightarrow> (error + conn_args) \<times> world" where
  "connection m usr pw w =
     (if truthy usr then Connection (ldap3 m) (direct_args m usr pw) w
      else Connection (ldap3 m) (pooled_args m) w)"

section \<open>Executing a query\<close>

text \<open>
  \<^verbatim>\<open>[(r['dn'], r['attributes']) for r in result if 'dn' in r]\<close>: a record with a
  \<^verbatim>\<open>'dn'\<close> key and no \<^verbatim>\<open>'attributes'\<close> key raises \<^verbatim>\<open>KeyError\<close>.
\<close>

fun map_response :: "ldap_entry list \<Rightarrow> error + match list" where
  "map_response [] = Inr []"
| "map_response (r # rs) =
     (case entry_dn r of
        None \<Rightarrow> map_response rs
      | Some d \<Rightarrow>
          (case entry_attributes r of
             None \<Rightarrow> Inl KeyError
           | Some a \<Rightarrow>
               (case map_response rs of
                  Inl e \<Rightarrow> Inl e
                | Inr ms \<Rightarrow> Inr ((d, a) # ms))))"

text \<open>
  \<^verbatim>\<open>
  with manager.connection() as conn:
      ret = conn.search(search_scope=self.scope, attributes=self.attributes, *cache_key)
      result, ret = conn.get_response(ret)
  \<close>
  Entering the context is not recorded: the connection is bound when it is
  created. The context manager's exit runs whether or not the body raised; an
  exception of the body propagates after it, unless the exit raises itself.
\<close>

definition search_with_connection ::
  "LDAPQuery \<Rightarrow> ConnectionManager \<Rightarrow> cache_key \<Rightarrow> world
     \<Rightarrow> (error + ldap_entry list option) \<times> world" where
  "search_with_connection q m cache_key w =
     (case connection m PyNone PyNone w of
        (Inl e, w1) \<Rightarrow> (Inl e, w1)
      | (Inr conn, w1) \<Rightarrow>
          (let (body, w3) =
                 (case conn_search (ldap3 m) conn (fst cache_key) (snd cache_key)
                         (scope q) (attributes q) w1 of
                    (Inl e, w2) \<Rightarrow> (Inl e, w2)
                  | (Inr ret, w2) \<Rightarrow> conn_get_response (ldap3 m) conn ret w2);
               (left, w4) = conn_exit (ldap3 m) conn w3
           in (case left of Inl e \<Rightarrow> Inl e | Inr u \<Rightarrow> body, w4)))"

text \<open>
  \<^verbatim>\<open>
  def execute(self, manager, **kw):
      cache_key = (self.base_dn % kw, self.filter_tmpl % kw)
      result = self.query_cache(cache_key) if self.cache_period else None
      if result is None:
          with manager.connection() as conn:
              ...
          if result is None:
              result = []
          else:
              result = [(r['dn'], r['attributes']) for r in result if 'dn' in r]
              if self.cache_period:
                  self.cache[cache_key] = result
      return result
  \<close>
  The result comes with the query object and the world as the call leaves them,
  also when it raises.
\<close>

definition execute ::
  "LDAPQuery \<Rightarrow> ConnectionManager \<Rightarrow> (unicode \<rightharpoonup> py_value) \<Rightarrow> world
     \<Rightarrow> (error + match list) \<times> LDAPQuery \<times> world" where
  "execute q m kw w =
     (case py_format (base_dn q) kw of
        Inl e \<Rightarrow> (Inl e, q, w)
      | Inr b \<Rightarrow>
     (case py_format (filter_tmpl q) kw of
        Inl e \<Rightarrow> (Inl e, q, w)
      | Inr f \<Rightarrow>
     (let cache_key = (b, f) in
      case (if cache_period q \<noteq> 0 then query_cache q cache_key w else (Inr None, q)) of
        (Inl e, q1) \<Rightarrow> (Inl e, q1, w)
      | (Inr (Some result), q1) \<Rightarrow> (Inr result, q1, w)
      | (Inr None, q1) \<Rightarrow>
          (case search_with_connection q1 m cache_key w of
             (Inl e, w1) \<Rightarrow> (Inl e, q1, w1)
           | (Inr None, w1) \<Rightarrow> (Inr [], q1, w1)
           | (Inr (Some response), w1) \<Rightarrow>
               (case map_response response of
                  Inl e \<Rightarrow> (Inl e, q1, w1)
                | Inr result \<Rightarrow>
                    (Inr result,
                     if cache_period q1 \<noteq> 0
                     then q1\<lparr>cache := (cache q1)(cache_key \<mapsto> result)\<rparr>
                     else q1,
                     w1))))))"

section \<open>The connector\<close>

text \<open>
  \<^verbatim>\<open>
  def _registry_identifier(base_identifier, realm=None):
      if realm:
          return '_'.join((base_identifier, realm))
      else:
          return base_identifier
  \<close>
  A realm is \<^verbatim>\<open>None\<close> or a string; the empty string is falsy like \<^verbatim>\<open>None\<close>.
  \<^verbatim>\<open>_pool_identifier\<close> is the same function and \<^verbatim>\<open>_activity_identifier\<close> joins
  with a hyphen.
\<close>

definition registry_identifier :: "unicode \<Rightarrow> unicode option \<Rightarrow> unicode" where
  "registry_identifier base_identifier realm =
     (case realm of
        None \<Rightarrow> base_identifier
      | Some r \<Rightarrow> if r \<noteq> [] then base_identifier @ ustr ''_'' @ r else base_identifier)"

definition pool_identifier :: "unicode \<Rightarrow> unicode option \<Rightarrow> unicode" where
  "pool_identifier base_identifier realm =
     (case realm of
        None \<Rightarrow> base_identifier
      | Some r \<Rightarrow> if r \<noteq> [] then base_identifier @ ustr ''_'' @ r else base_identifier)"

definition activity_identifier :: "unicode \<Rightarrow> unicode option \<Rightarrow> unicode" where
  "activity_identifier base_identifier realm =
     (case realm of
        None \<Rightarrow> base_identifier
      | Some r \<Rightarrow> if r \<noteq> [] then base_identifier @ ustr ''-'' @ r else base_identifier)"

text \<open>
  The registry is an object whose attributes are read with
  \<^verbatim>\<open>getattr(registry, name, None)\<close>: a map from attribute names to query objects.
\<close>

type_synonym registry = "unicode \<rightharpoonup> LDAPQuery"

record Connector =
  registry :: registry
  manager :: ConnectionManager
  realm :: "unicode option"
  login_qry_identif :: unicode
  group_qry_identif :: unicode

definition Connector_init ::
  "registry \<Rightarrow> ConnectionManager \<Rightarrow> unicode option \<Rightarrow> Connector" where
  "Connector_init reg m rlm =
     \<lparr>registry = reg, manager = m, realm = rlm,
      login_qry_identif = registry_identifier (ustr ''ldap_login_query'') rlm,
      group_qry_identif = registry_identifier (ustr ''ldap_groups_query'') rlm\<rparr>"

text \<open>
  \<^verbatim>\<open>ldap_set_login_query\<close> and \<^verbatim>\<open>ldap_set_groups_query\<close> build a query and
  register it: \<^verbatim>\<open>setattr(config.registry, query_identif, query)\<close>.
\<close>

definition ldap_set_login_query ::
  "registry \<Rightarrow> unicode \<Rightarrow> unicode \<Rightarrow> scope \<Rightarrow> unicode list option \<Rightarrow> real \<Rightarrow> unicode option
     \<Rightarrow> registry" where
  "ldap_set_login_query reg b f sc atts period rlm =
     reg(registry_identifier (ustr ''ldap_login_query'') rlm \<mapsto> LDAPQuery_init b f sc atts period)"

definition ldap_set_groups_query ::
  "registry \<Rightarrow> unicode \<Rightarrow> unicode \<Rightarrow> scope \<Rightarrow> unicode list option \<Rightarrow> real \<Rightarrow> unicode option
     \<Rightarrow> registry" where
  "ldap_set_groups_query reg b f sc atts period rlm =
     reg(registry_identifier (ustr ''ldap_groups_query'') rlm \<mapsto> LDAPQuery_init b f sc atts period)"

text \<open>
  \<^verbatim>\<open>
  def authenticate(self, login, password):
      if password == '':
          return None
      search = getattr(self.registry, self.login_qry_identif, None)
      if search is None:
          raise ConfigurationError('ldap_set_login_query was not called during setup')
      result = search.execute(self.manager, login=escape_for_search(login),
                              password=escape_for_search(password))
      if not result or len(result) > 1:
          return None
      result = result[0]
      login_dn = result[0]
      try:
          self.manager.connection(login_dn, password).unbind()
      except LDAPException:
          return None
      return result
  \<close>
  The query object in the registry is the one \<^verbatim>\<open>execute\<close> mutates, so the
  connector comes back with the registry holding the query as the call left it.
\<close>

definition login_kw :: "py_value \<Rightarrow> py_value \<Rightarrow> (unicode \<rightharpoonup> py_value)" where
  "login_kw login password =
     [ustr ''login'' \<mapsto> escape_for_search login,
      ustr ''password'' \<mapsto> escape_for_search password]"

definition verify_bind ::
  "ConnectionManager \<Rightarrow> py_value \<Rightarrow> py_value \<Rightarrow> world \<Rightarrow> (error + unit) \<times> world" where
  "verify_bind m login_dn password w =
     (case connection m login_dn password w of
        (Inl e, w1) \<Rightarrow> (Inl e, w1)
      | (Inr conn, w1) \<Rightarrow> conn_unbind (ldap3 m) conn w1)"

definition authenticate ::
  "Connector \<Rightarrow> py_value \<Rightarrow> py_value \<Rightarrow> world \<Rightarrow> (error + match option) \<times> Connector \<times> world" where
  "authenticate self login password w =
     (if password = Str [] then (Inr None, self, w)
      else case registry self (login_qry_identif self) of
        None \<Rightarrow> (Inl ConfigurationError, self, w)
      | Some search \<Rightarrow>
          (case execute search (manager self) (login_kw login password) w of
             (Inl e, search1, w1) \<Rightarrow>
               (Inl e, self\<lparr>registry := (registry self)(login_qry_identif self \<mapsto> search1)\<rparr>, w1)
           | (Inr result, search1, w1) \<Rightarrow>
               (let self1 = self\<lparr>registry := (registry self)(login_qry_identif self \<mapsto> search1)\<rparr>
                in if result = [] \<or> length result > 1 then (Inr None, self1, w1)
                   else (let match = result ! 0; login_dn = fst match
                         in case verify_bind (manager self) login_dn password w1 of
                              (Inl e, w2) \<Rightarrow>
                                (if e = LDAPException then Inr None else Inl e, self1, w2)
                            | (Inr u, w2) \<Rightarrow> (Inr (Some match), self1, w2)))))"

text \<open>
  \<^verbatim>\<open>
  def user_groups(self, userdn):
      search = getattr(self.registry, self.group_qry_identif, None)
      if search is None:
          raise ConfigurationError('set_ldap_groups_query was not called during setup')
      try:
          result = search.execute(self.manager, userdn=escape_for_search(userdn))
      except LDAPException:
          return None
      return result
  \<close>
\<close>

definition user_groups ::
  "Connector \<Rightarrow> py_value \<Rightarrow> world \<Rightarrow> (error + match list option) \<times> Connector \<times> world" where
  "user_groups self userdn w =
     (case registry self (group_qry_identif self) of
        None \<Rightarrow> (Inl ConfigurationError, self, w)
      | Some search \<Rightarrow>
          (case execute search (manager self) [ustr ''userdn'' \<mapsto> escape_for_search userdn] w of
             (Inl e, search1, w1) \<Rightarrow>
               (if e = LDAPException then Inr None else Inl e,
                self\<lparr>registry := (registry self)(group_qry_identif self \<mapsto> search1)\<rparr>, w1)
           | (Inr result, search1, w1) \<Rightarrow>
               (Inr (Some result),
                self\<lparr>registry := (registry self)(group_qry_identif self \<mapsto> search1)\<rparr>, w1)))"

section \<open>The specification's notions\<close>

text \<open>
  The fixed table as the specification lists it, one character at a time.
\<close>

definition spec_escape_char :: "codepoint \<Rightarrow> unicode" where
  "spec_escape_char c =
     (if c = of_char CHR ''*'' then 0x5C # ustr ''2A''
      else if c = of_char CHR ''('' then 0x5C # ustr ''28''
      else if c = of_char CHR '')'' then 0x5C # ustr ''29''
      else if c = 0x5C then 0x5C # ustr ''5C''
      else if c = 0 then 0x5C # ustr ''00''
      else [c])"

definition special :: "codepoint \<Rightarrow> bool" where
  "special c = (c \<in> {of_char CHR ''*'', of_char CHR ''('', of_char CHR '')'', 0x5C, 0})"

text \<open>
  No raw occurrence of a special character: reading the text from the left, every
  backslash starts one of the five escape sequences of the table, and no other
  special character occurs.
\<close>

fun no_raw_special :: "unicode \<Rightarrow> bool" where
  "no_raw_special [] = True"
| "no_raw_special (c # cs) =
     (if c = 0x5C
      then (case cs of
              h # l # rest \<Rightarrow>
                [h, l] \<in> set (map ustr [''2A'', ''28'', ''29'', ''5C'', ''00''])
                \<and> no_raw_special rest
            | _ \<Rightarrow> False)
      else \<not> special c \<and> no_raw_special cs)"

text \<open>
  The hex escape of one byte as the specification words it, a backslash and two
  lowercase hexadecimal digits, and the decoder that reads such a text back.
\<close>

definition spec_hex_escape :: "byte \<Rightarrow> unicode" where
  "spec_hex_escape b =
     [0x5C, ustr ''0123456789abcdef'' ! (unat b div 16),
            ustr ''0123456789abcdef'' ! (unat b mod 16)]"

definition hexval :: "codepoint \<Rightarrow> nat option" where
  "hexval c =
     (if of_char CHR ''0'' \<le> c \<and> c \<le> of_char CHR ''9'' then Some (c - of_char CHR ''0'')
      else if of_char CHR ''a'' \<le> c \<and> c \<le> of_char CHR ''f''
        then Some (c - of_char CHR ''a'' + 10)
      else None)"

fun hex_unescape :: "unicode \<Rightarrow> byte list option" where
  "hex_unescape [] = Some []"
| "hex_unescape (c # h # l # rest) =
     (if c = 0x5C
      then (case (hexval h, hexval l) of
              (Some a, Some b) \<Rightarrow>
                map_option ((#) (word_of_nat (16 * a + b))) (hex_unescape rest)
            | _ \<Rightarrow> None)
      else None)"
| "hex_unescape _ = None"

text \<open>
  The bucket of a moment: \<open>now - (now mod period)\<close> is the multiple of the period
  that \<open>\<lfloor>now / period\<rfloor>\<close> selects.
\<close>

definition bucket :: "real \<Rightarrow> real \<Rightarrow> real" where
  "bucket period when = period * of_int \<lfloor>when / period\<rfloor>"

text \<open>
  The result sequence the specification describes for a low-level response: the
  records that carry a distinguished name, in the order returned, each as the pair
  of its name and its attributes; nothing for a null response.
\<close>

definition spec_result :: "ldap_entry list option \<Rightarrow> match list" where
  "spec_result response =
     (case response of
        None \<Rightarrow> []
      | Some rs \<Rightarrow> map (\<lambda>r. (the (entry_dn r), the (entry_attributes r)))
                    (filter (\<lambda>r. entry_dn r \<noteq> None) rs))"

text \<open>
  The query as a lookup at the world's time leaves it: flushed, with the bucket
  stored, when the bucket is strictly greater than the stored last bucket, and
  untouched otherwise.
\<close>

definition flushed :: "LDAPQuery \<Rightarrow> world \<Rightarrow> LDAPQuery" where
  "flushed q w =
     (if last_timeslice q < bucket (cache_period q) (now w)
      then q\<lparr>cache := Map.empty, last_timeslice := bucket (cache_period q) (now w)\<rparr>
      else q)"

text \<open>
  A run of executions on one query object, each with its own substitutions and in
  its own world; the object is the one the previous execution left.
\<close>

fun executes ::
  "LDAPQuery \<Rightarrow> ConnectionManager \<Rightarrow> ((unicode \<rightharpoonup> py_value) \<times> world) list \<Rightarrow> LDAPQuery" where
  "executes q m [] = q"
| "executes q m (s # steps) = executes (fst (snd (execute q m (fst s) (snd s)))) m steps"

section \<open>A small directory\<close>

text \<open>
  A directory for the concrete runs below. The filter \<^verbatim>\<open>(uid=alice)\<close> finds a referral
  (a record without a distinguished name) and one entry, \<^verbatim>\<open>(uid=bob)\<close> finds two
  entries, \<^verbatim>\<open>(uid=null)\<close> is answered with a null response and everything else with
  an empty one. The server is down before second 1000: a search raises then. The
  service account always binds; any other identity binds with the password
  \<^verbatim>\<open>secret\<close> or \<^verbatim>\<open>sticky\<close>, and a connection bound with \<^verbatim>\<open>sticky\<close> raises when
  it is unbound.
\<close>

definition ex_alice :: ldap_entry where
  "ex_alice = \<lparr>entry_dn = Some (Str (ustr ''uid=alice'')),
              entry_attributes = Some [(ustr ''cn'', [ustr ''Alice''])]\<rparr>"

definition ex_bob :: ldap_entry where
  "ex_bob = \<lparr>entry_dn = Some (Str (ustr ''uid=bob,ou=a'')), entry_attributes = Some []\<rparr>"

definition ex_bob2 :: ldap_entry where
  "ex_bob2 = \<lparr>entry_dn = Some (Str (ustr ''uid=bob,ou=b'')), entry_attributes = Some []\<rparr>"

definition ex_referral :: ldap_entry where
  "ex_referral = \<lparr>entry_dn = None, entry_attributes = None\<rparr>"

definition ex_directory :: "unicode \<Rightarrow> ldap_entry list option" where
  "ex_directory flt =
     (if flt = ustr ''(uid=alice)'' then Some [ex_referral, ex_alice]
      else if flt = ustr ''(uid=bob)'' then Some [ex_bob, ex_bob2]
      else if flt = ustr ''(uid=null)'' then None
      else Some [])"

definition ex_ldap3 :: ldap3 where
  "ex_ldap3 =
     \<lparr>Connection_ok = (\<lambda>w a. conn_user a = Str (ustr ''cn=svc'')
                               \<or> conn_password a = Str (ustr ''secret'')
                               \<or> conn_password a = Str (ustr ''sticky'')),
      search_ret = (\<lambda>w conn base flt sc atts.
                      if now w < 1000 then None else Some (length (calls w))),
      get_response_ret = (\<lambda>w conn ret.
                      case last (calls w) of
                        Search c base flt sc atts \<Rightarrow> Some (ex_directory flt)
                      | _ \<Rightarrow> None),
      exit_ok = (\<lambda>w conn. True),
      unbind_ok = (\<lambda>w conn. conn_password conn \<noteq> Str (ustr ''sticky''))\<rparr>"

definition ex_manager :: ConnectionManager where
  "ex_manager =
     \<lparr>ldap3 = ex_ldap3, server = [ustr ''ldap.example.com''],
      bind = Str (ustr ''cn=svc''), passwd = Str (ustr ''svcpw''), strategy = REUSABLE,
      pool_name = Some (pool_identifier (ustr ''pyramid_ldap3'') None),
      pool_size = Some 10, pool_lifetime = Some 3600\<rparr>"

definition ex_login_query :: LDAPQuery where
  "ex_login_query =
     LDAPQuery_init (ustr ''ou=people'') (ustr ''(uid=%(login)s)'') LEVEL None 0"

definition ex_groups_query :: LDAPQuery where
  "ex_groups_query =
     LDAPQuery_init (ustr ''ou=groups'') (ustr ''(member=%(userdn)s)'') SUBTREE None 0"

definition ex_cached_query :: LDAPQuery where
  "ex_cached_query =
     LDAPQuery_init (ustr ''ou=people'') (ustr ''(uid=%(login)s)'') LEVEL None 10"

definition ex_registry :: registry where
  "ex_registry =
     ldap_set_groups_query
       (ldap_set_login_query Map.empty
          (ustr ''ou=people'') (ustr ''(uid=%(login)s)'') LEVEL None 0 None)
       (ustr ''ou=groups'') (ustr ''(member=%(userdn)s)'') SUBTREE None 0 None"

definition ex_connector :: Connector where
  "ex_connector = Connector_init ex_registry ex_manager None"

definition ex_world :: world where
  "ex_world = \<lparr>now = 1234.5, calls = []\<rparr>"

definition ex_world_down :: world where
  "ex_world_down = \<lparr>now = 999, calls = []\<rparr>"

text \<open>
  A second directory, which answers every search with the one entry whose
  distinguished name is the empty string (the root entry of a directory) and lets
  nobody bind but the service account with its own password.
\<close>

definition ex_rootdse :: ldap_entry where
  "ex_rootdse = \<lparr>entry_dn = Some (Str []), entry_attributes = Some []\<rparr>"

definition ex_root_ldap3 :: ldap3 where
  "ex_root_ldap3 =
     \<lparr>Connection_ok = (\<lambda>w a. conn_user a = Str (ustr ''cn=svc'')
                               \<and> conn_password a = Str (ustr ''svcpw'')),
      search_ret = (\<lambda>w conn base flt sc atts. Some (length (calls w))),
      get_response_ret = (\<lambda>w conn ret. Some (Some [ex_rootdse])),
      exit_ok = (\<lambda>w conn. True),
      unbind_ok = (\<lambda>w conn. True)\<rparr>"

definition ex_root_manager :: ConnectionManager where
  "ex_root_manager = ex_manager\<lparr>ldap3 := ex_root_ldap3\<rparr>"

definition ex_root_connector :: Connector where
  "ex_root_connector = Connector_init ex_registry ex_root_manager None"

definition ex_kw :: "string \<Rightarrow> (unicode \<rightharpoonup> py_value)" where
  "ex_kw login = login_kw (Str (ustr login)) (Str (ustr ''secret''))"

text \<open>
  Two lookups of \<^verbatim>\<open>(uid=null)\<close> through the cached query, at seconds 1234.5 and 1235
  of the same ten-second bucket.
\<close>

definition ex_null_first :: "(error + match list) \<times> LDAPQuery \<times> world" where
  "ex_null_first = execute ex_cached_query ex_manager (ex_kw ''null'') ex_world"

definition ex_null_second :: "(error + match list) \<times> LDAPQuery \<times> world" where
  "ex_null_second =
     execute (fst (snd ex_null_first)) ex_manager (ex_kw ''null'')
       ((snd (snd ex_null_first))\<lparr>now := 1235\<rparr>)"

text \<open>
  Three lookups through the cached query with a clock that is set back: alice at
  second 1234.5, then bob at second 1000 and again at second 1015.
\<close>

definition ex_back_first :: "(error + match list) \<times> LDAPQuery \<times> world" where
  "ex_back_first = execute ex_cached_query ex_manager (ex_kw ''alice'') ex_world"

definition ex_back_second :: "(error + match list) \<times> LDAPQuery \<times> world" where
  "ex_back_second =
     execute (fst (snd ex_back_first)) ex_manager (ex_kw ''bob'')
       ((snd (snd ex_back_first))\<lparr>now := 1000\<rparr>)"

definition ex_back_third :: "(error + match list) \<times> LDAPQuery \<times> world" where
  "ex_back_third =
     execute (fst (snd ex_back_second)) ex_manager (ex_kw ''bob'')
       ((snd (snd ex_back_second))\<lparr>now := 1015\<rparr>)"

section \<open>Properties of the sanitizer\<close>

text \<open>The table lookup of the source is the character map of the specification.\<close>

lemma table_get_spec: "table_get c = spec_escape_char c"
  by (simp add: table_get_def spec_escape_char_def escape_for_search_table_def ustr_def)

lemma table_get_eq: "table_get = spec_escape_char"
  by (rule ext) (rule table_get_spec)

lemma no_raw_special_escape_append:
  "no_raw_special cs \<Longrightarrow> no_raw_special (spec_escape_char c @ cs)"
  by (simp add: spec_escape_char_def special_def ustr_def)

lemma no_raw_special_concat: "no_raw_special (concat (map spec_escape_char t))"
  by (induction t) (simp_all add: no_raw_special_escape_append)

lemma spec_escape_char_set:
  "x \<in> set (spec_escape_char c) \<Longrightarrow>
     x \<noteq> of_char CHR ''*'' \<and> x \<noteq> of_char CHR ''('' \<and> x \<noteq> of_char CHR '')'' \<and> x \<noteq> 0"
  by (auto simp: spec_escape_char_def ustr_def split: if_splits)

lemma star_free: "x \<in> set (concat (map spec_escape_char t)) \<Longrightarrow> x \<noteq> of_char CHR ''*'' \<and> x \<noteq> of_char CHR ''('' \<and> x \<noteq> of_char CHR '')'' \<and> x \<noteq> 0"
  using spec_escape_char_set by fastforce

text \<open>
  Claim C4. On a text input the sanitizer replaces each of the five characters of the
  fixed table by its escape sequence and passes every other character through, so
  that no raw occurrence of the five remains: every backslash of the output starts
  an escape sequence of the table, and \<^verbatim>\<open>*\<close>, \<^verbatim>\<open>(\<close>, \<^verbatim>\<open>)\<close> and NUL do not occur in it at
  all. A falsy input (\<^verbatim>\<open>None\<close>, the empty string, the empty bytes) is returned
  unchanged.
\<close>

theorem escape_for_search_text:
  "escape_for_search (Str t) = Str (concat (map spec_escape_char t))
   \<and> no_raw_special (concat (map spec_escape_char t))
   \<and> (\<forall>x \<in> set (concat (map spec_escape_char t)).
          x \<noteq> of_char CHR ''*'' \<and> x \<noteq> of_char CHR ''('' \<and> x \<noteq> of_char CHR '')'' \<and> x \<noteq> 0)
   \<and> (\<not> truthy s \<longrightarrow> escape_for_search s = s)"
  using star_free [of _ t]
  by (auto simp: escape_for_search_def table_get_eq no_raw_special_concat)

text \<open>The text \<^verbatim>\<open>a*(b)c\<close> and the empty bytes object.\<close>

theorem escape_for_search_text_witness:
  "escape_for_search (Str (ustr ''a*(b)c''))
     = Str (ustr ''a'' @ 0x5C # ustr ''2A'' @ 0x5C # ustr ''28b'' @ 0x5C # ustr ''29c'')
   \<and> no_raw_special (ustr ''a'' @ 0x5C # ustr ''2A'' @ 0x5C # ustr ''28b'' @ 0x5C # ustr ''29c'')
   \<and> \<not> truthy (Bytes []) \<and> escape_for_search (Bytes []) = Bytes []"
  using escape_for_search_text [of "ustr ''a*(b)c''" "Bytes []"]
  by (simp add: spec_escape_char_def ustr_def)

text \<open>
  Two hexadecimal digits for a byte, and reading them back.
\<close>

lemma hexdigit_nth: "d < 16 \<Longrightarrow> hexdigit d = ustr ''0123456789abcdef'' ! d"
  by (simp add: hexdigit_def ustr_def nth_Cons' )

lemma hexval_hexdigit: "d < 16 \<Longrightarrow> hexval (hexdigit d) = Some d"
  by (simp add: hexval_def hexdigit_def)

lemma fmt_02x_byte:
  assumes "n < 256"
  shows "fmt_02x n = [hexdigit (n div 16), hexdigit (n mod 16)]"
proof (cases "n < 16")
  case True
  then show ?thesis
    by (simp add: fmt_02x_def hex_digits.simps [of n] hexdigit_def)
next
  case False
  with assms have "n div 16 < 16" by simp
  with False show ?thesis
    by (simp add: fmt_02x_def hex_digits.simps [of n] hex_digits.simps [of "n div 16"])
qed

lemma unat_byte_less: "unat (b :: byte) < 256"
  using unsigned_less [of b] by simp

lemma hex_escape_spec: "0x5C # fmt_02x (unat (b :: byte)) = spec_hex_escape b"
proof -
  have "unat b div 16 < 16" "unat b mod 16 < 16"
    using unat_byte_less [of b] by simp_all
  then show ?thesis
    by (simp add: fmt_02x_byte unat_byte_less spec_hex_escape_def hexdigit_nth)
qed

lemma hex_unescape_step:
  "hex_unescape (spec_hex_escape b @ rest) = map_option ((#) b) (hex_unescape rest)"
proof -
  have "unat b div 16 < 16" "unat b mod 16 < 16"
    using unat_byte_less [of b] by simp_all
  then show ?thesis
    by (simp add: spec_hex_escape_def hexdigit_nth [symmetric] hexval_hexdigit)
qed

lemma hex_unescape_roundtrip: "hex_unescape (concat (map spec_hex_escape bs)) = Some bs"
  by (induction bs) (simp_all add: hex_unescape_step)

text \<open>
  Claim C9. For a byte sequence that is not well-formed UTF-8 the sanitizer returns
  one escape per byte, in order, each a backslash and two lowercase hexadecimal
  digits, with no character-level escaping on top; decoding the escapes gives the
  bytes back.
\<close>

theorem escape_undecodable:
  assumes "utf8_decode bs = None"
  shows "escape_for_search (Bytes bs) = Str (concat (map spec_hex_escape bs))
       \<and> hex_unescape (concat (map spec_hex_escape bs)) = Some bs"
proof -
  from assms have "bs \<noteq> []" by auto
  with assms have "escape_for_search (Bytes bs) = Str (concat (map (\<lambda>b. 0x5C # fmt_02x (unat b)) bs))"
    by (simp add: escape_for_search_def)
  then show ?thesis by (simp add: hex_escape_spec hex_unescape_roundtrip)
qed

text \<open>The bytes \<^verbatim>\<open>ff 2a\<close>: the asterisk is hex-escaped like any other byte.\<close>

theorem escape_undecodable_witness:
  "utf8_decode [0xFF, 0x2A] = None
   \<and> escape_for_search (Bytes [0xFF, 0x2A]) = Str (0x5C # ustr ''ff'' @ 0x5C # ustr ''2a'')
   \<and> hex_unescape (0x5C # ustr ''ff'' @ 0x5C # ustr ''2a'') = Some [0xFF, 0x2A]"
proof -
  have undecodable: "utf8_decode [0xFF, 0x2A] = None"
    by simp
  show ?thesis
    using escape_undecodable [OF undecodable] undecodable
    by (simp add: spec_hex_escape_def ustr_def)
qed

section \<open>Properties of the query and its cache\<close>

text \<open>For a nonzero period the bucket is computed, and a zero period raises.\<close>

lemma timeslice_bucket: "period \<noteq> 0 \<Longrightarrow> timeslice period when = Inr (bucket period when)"
  by (simp add: timeslice_def py_mod_def bucket_def)

lemma timeslice_zero: "timeslice 0 when = Inl ZeroDivisionError"
  by (simp add: timeslice_def py_mod_def)

text \<open>Which errors each step can raise.\<close>

lemma cons_result_error: "cons_result t r = Inl e \<Longrightarrow> r = Inl e"
  by (cases r) simp_all

lemma format_from_errors: "format_from st t kw = Inl e \<Longrightarrow> e = KeyError \<or> e = ValueError"
  by (induction st t kw rule: format_from.induct)
     (auto split: if_splits option.splits dest: cons_result_error)

lemma py_format_errors: "py_format t kw = Inl e \<Longrightarrow> e = KeyError \<or> e = ValueError"
  unfolding py_format_def by (rule format_from_errors)

lemma map_response_errors: "map_response rs = Inl e \<Longrightarrow> e = KeyError"
  by (induction rs) (auto split: option.splits sum.splits)

lemma map_response_spec:
  "\<forall>r \<in> set rs. entry_dn r \<noteq> None \<longrightarrow> entry_attributes r \<noteq> None \<Longrightarrow>
     map_response rs = Inr (spec_result (Some rs))"
  by (induction rs) (auto simp: spec_result_def split: option.splits)

lemma search_with_connection_errors:
  "search_with_connection q m k w = (Inl e, w1) \<Longrightarrow> e = LDAPException"
  by (auto simp: search_with_connection_def connection_def Connection_def conn_search_def
        conn_get_response_def conn_exit_def split: if_splits prod.splits sum.splits option.splits)

text \<open>
  The search opens the pooled connection first, and reads only the scope and the
  attribute selection of the query.
\<close>

lemma search_with_connection_calls:
  "take (Suc (length (calls w))) (calls (snd (search_with_connection q m k w)))
     = calls w @ [Connect (pooled_args m)]"
  by (auto simp: search_with_connection_def connection_def Connection_def conn_search_def
        conn_get_response_def conn_exit_def record_call_def split: if_splits prod.splits sum.splits option.splits)

lemma search_with_connection_cong:
  "scope q' = scope q \<Longrightarrow> attributes q' = attributes q \<Longrightarrow>
     search_with_connection q' m k w = search_with_connection q m k w"
  unfolding search_with_connection_def by metis

text \<open>The lookup and the execution, case by case.\<close>

lemma query_cache_rule:
  assumes "cache_period q \<noteq> 0"
  shows "query_cache q k w =
           (if bucket (cache_period q) (now w) > last_timeslice q
            then (Inr None, q\<lparr>cache := Map.empty, last_timeslice := bucket (cache_period q) (now w)\<rparr>)
            else (Inr (cache q k), q))"
  using assms by (simp add: query_cache_def timeslice_bucket)

lemma query_cache_fields:
  "query_cache q k w = (r, q1) \<Longrightarrow>
     base_dn q1 = base_dn q \<and> filter_tmpl q1 = filter_tmpl q \<and> scope q1 = scope q
     \<and> attributes q1 = attributes q \<and> cache_period q1 = cache_period q"
  by (auto simp: query_cache_def Let_def split: sum.splits if_splits)

lemma execute_keyed:
  assumes "py_format (base_dn q) kw = Inr b" and "py_format (filter_tmpl q) kw = Inr f"
  shows "execute q m kw w =
     (case (if cache_period q \<noteq> 0 then query_cache q (b, f) w else (Inr None, q)) of
        (Inl e, q1) \<Rightarrow> (Inl e, q1, w)
      | (Inr (Some result), q1) \<Rightarrow> (Inr result, q1, w)
      | (Inr None, q1) \<Rightarrow>
          (case search_with_connection q1 m (b, f) w of
             (Inl e, w1) \<Rightarrow> (Inl e, q1, w1)
           | (Inr None, w1) \<Rightarrow> (Inr [], q1, w1)
           | (Inr (Some response), w1) \<Rightarrow>
               (case map_response response of
                  Inl e \<Rightarrow> (Inl e, q1, w1)
                | Inr result \<Rightarrow>
                    (Inr result,
                     if cache_period q1 \<noteq> 0
                     then q1\<lparr>cache := (cache q1)((b, f) \<mapsto> result)\<rparr>
                     else q1,
                     w1))))"
  using assms by (simp add: execute_def Let_def)

lemma execute_unkeyed:
  assumes "py_format (base_dn q) kw = Inl e \<or> (\<exists>b. py_format (base_dn q) kw = Inr b \<and> py_format (filter_tmpl q) kw = Inl e)"
  shows "execute q m kw w = (Inl e, q, w)"
  using assms by (auto simp: execute_def)

lemma execute_uncached_keyed:
  assumes "cache_period q = 0"
    and "py_format (base_dn q) kw = Inr b" and "py_format (filter_tmpl q) kw = Inr f"
  shows "execute q m kw w =
     (case search_with_connection q m (b, f) w of
        (Inl e, w1) \<Rightarrow> (Inl e, q, w1)
      | (Inr None, w1) \<Rightarrow> (Inr [], q, w1)
      | (Inr (Some response), w1) \<Rightarrow>
          (case map_response response of
             Inl e \<Rightarrow> (Inl e, q, w1)
           | Inr result \<Rightarrow> (Inr result, q, w1)))"
  using assms by (simp add: execute_keyed split: prod.splits sum.splits option.splits)

lemma execute_never_divides_by_zero: "fst (execute q m kw w) \<noteq> Inl ZeroDivisionError"
proof (cases "py_format (base_dn q) kw")
  case (Inl e)
  then show ?thesis
    using py_format_errors [of "base_dn q" kw e] by (auto simp: execute_unkeyed)
next
  case b: (Inr b)
  show ?thesis
  proof (cases "py_format (filter_tmpl q) kw")
    case (Inl e)
    with b show ?thesis
      using py_format_errors [of "filter_tmpl q" kw e] by (auto simp: execute_unkeyed)
  next
    case f: (Inr f)
    show ?thesis
      unfolding execute_keyed [OF b f]
      by (auto simp: query_cache_rule split: prod.splits sum.splits option.splits if_splits
            dest: search_with_connection_errors map_response_errors)
  qed
qed

lemma execute_fields:
  "execute q m kw w = (r, q1, w1) \<Longrightarrow>
     base_dn q1 = base_dn q \<and> filter_tmpl q1 = filter_tmpl q \<and> scope q1 = scope q
     \<and> attributes q1 = attributes q \<and> cache_period q1 = cache_period q"
  unfolding execute_def Let_def
  by (auto split: sum.splits prod.splits option.splits if_splits dest: query_cache_fields)

lemma execute_last_timeslice:
  assumes "cache_period q \<noteq> 0"
    and "py_format (base_dn q) kw = Inr b" and "py_format (filter_tmpl q) kw = Inr f"
    and "execute q m kw w = (r, q1, w1)"
  shows "last_timeslice q1 = max (last_timeslice q) (bucket (cache_period q) (now w))"
  using assms(1,4) unfolding execute_keyed [OF assms(2,3)]
  by (auto simp: query_cache_rule split: sum.splits prod.splits option.splits if_splits)

lemma execute_stored:
  assumes "cache_period q \<noteq> 0"
    and "py_format (base_dn q) kw = Inr b" and "py_format (filter_tmpl q) kw = Inr f"
    and "execute q m kw w = (Inr result, q1, w1)"
  shows "cache q1 (b, f) = Some result \<or> (result = [] \<and> cache q1 (b, f) = None)"
  using assms(1,4) unfolding execute_keyed [OF assms(2,3)]
  by (auto simp: query_cache_rule split: sum.splits prod.splits option.splits if_splits)

lemma execute_hit:
  assumes "cache_period q \<noteq> 0"
    and "py_format (base_dn q) kw = Inr b" and "py_format (filter_tmpl q) kw = Inr f"
    and "cache q (b, f) = Some result"
    and "bucket (cache_period q) (now w) \<le> last_timeslice q"
  shows "execute q m kw w = (Inr result, q, w)"
  using assms(1,4,5) unfolding execute_keyed [OF assms(2,3)]
  by (simp add: query_cache_rule)

lemma execute_miss:
  assumes "cache_period q \<noteq> 0"
    and "py_format (base_dn q) kw = Inr b" and "py_format (filter_tmpl q) kw = Inr f"
    and "last_timeslice q < bucket (cache_period q) (now w)"
  shows "take (Suc (length (calls w))) (calls (snd (snd (execute q m kw w))))
           = calls w @ [Connect (pooled_args m)]"
  using assms(1,4)
    search_with_connection_calls [of w "q\<lparr>cache := Map.empty, last_timeslice := bucket (cache_period q) (now w)\<rparr>" m "(b, f)"]
  unfolding execute_keyed [OF assms(2,3)]
  by (auto simp: query_cache_rule split: sum.splits prod.splits option.splits)

text \<open>The same in terms of the query as the lookup leaves it.\<close>

lemma flushed_fields:
  "base_dn (flushed q w) = base_dn q" "filter_tmpl (flushed q w) = filter_tmpl q"
  "scope (flushed q w) = scope q" "attributes (flushed q w) = attributes q"
  "cache_period (flushed q w) = cache_period q"
  "last_timeslice (flushed q w) = max (last_timeslice q) (bucket (cache_period q) (now w))"
  by (simp_all add: flushed_def)

lemma query_cache_flushed:
  "cache_period q \<noteq> 0 \<Longrightarrow> query_cache q k w = (Inr (cache (flushed q w) k), flushed q w)"
  by (simp add: query_cache_rule flushed_def)

lemma execute_flushed_hit:
  assumes "cache_period q \<noteq> 0"
    and "py_format (base_dn q) kw = Inr b" and "py_format (filter_tmpl q) kw = Inr f"
    and "cache (flushed q w) (b, f) = Some r"
  shows "execute q m kw w = (Inr r, flushed q w, w)"
  using assms(1,4) unfolding execute_keyed [OF assms(2,3)]
  by (simp add: query_cache_flushed)

lemma execute_flushed_miss:
  assumes "cache_period q \<noteq> 0"
    and "py_format (base_dn q) kw = Inr b" and "py_format (filter_tmpl q) kw = Inr f"
    and "cache (flushed q w) (b, f) = None"
  shows "execute q m kw w =
     (case search_with_connection q m (b, f) w of
        (Inl e, w1) \<Rightarrow> (Inl e, flushed q w, w1)
      | (Inr None, w1) \<Rightarrow> (Inr [], flushed q w, w1)
      | (Inr (Some rs), w1) \<Rightarrow>
          (case map_response rs of
             Inl e \<Rightarrow> (Inl e, flushed q w, w1)
           | Inr result \<Rightarrow>
               (Inr result,
                (flushed q w)\<lparr>cache := (cache (flushed q w))((b, f) \<mapsto> result)\<rparr>, w1)))"
proof -
  have "search_with_connection (flushed q w) m (b, f) w = search_with_connection q m (b, f) w"
    by (rule search_with_connection_cong) (simp_all add: flushed_fields)
  then show ?thesis
    using assms(1,4) unfolding execute_keyed [OF assms(2,3)]
    by (simp add: query_cache_flushed flushed_fields split: prod.splits sum.splits option.splits)
qed

text \<open>
  One execution: a value in the mapping afterwards was there before, or was stored
  under the key of this execution.
\<close>

lemma execute_step:
  assumes "cache_period q \<noteq> 0"
    and "cache (fst (snd (execute q m kw w))) k = Some v"
  shows "(cache q k = Some v \<and> last_timeslice (fst (snd (execute q m kw w))) = last_timeslice q)
       \<or> (py_format (base_dn q) kw = Inr (fst k) \<and> py_format (filter_tmpl q) kw = Inr (snd k)
           \<and> last_timeslice (fst (snd (execute q m kw w)))
                = max (last_timeslice q) (bucket (cache_period q) (now w)))"
proof (cases "py_format (base_dn q) kw")
  case (Inl e)
  with assms(2) show ?thesis by (simp add: execute_unkeyed)
next
  case b: (Inr b)
  show ?thesis
  proof (cases "py_format (filter_tmpl q) kw")
    case (Inl e)
    with b assms(2) show ?thesis by (simp add: execute_unkeyed)
  next
    case f: (Inr f)
    show ?thesis
    proof (cases "cache (flushed q w) (b, f)")
      case (Some r)
      from assms(2) show ?thesis
        unfolding execute_flushed_hit [OF assms(1) b f Some]
        using b f Some
        by (cases k) (auto simp: flushed_def split: if_splits)
    next
      case None
      from assms(2) show ?thesis
        unfolding execute_flushed_miss [OF assms(1) b f None]
        using b f None
        by (cases k)
           (auto simp: flushed_def split: if_splits prod.splits sum.splits option.splits)
    qed
  qed
qed

lemma execute_step_last:
  assumes "cache_period q \<noteq> 0"
  shows "last_timeslice (fst (snd (execute q m kw w)))
           \<le> max (last_timeslice q) (bucket (cache_period q) (now w))"
proof (cases "py_format (base_dn q) kw")
  case (Inl e)
  then show ?thesis by (simp add: execute_unkeyed)
next
  case b: (Inr b)
  show ?thesis
  proof (cases "py_format (filter_tmpl q) kw")
    case (Inl e)
    with b show ?thesis by (simp add: execute_unkeyed)
  next
    case f: (Inr f)
    obtain r q1 w1 where run: "execute q m kw w = (r, q1, w1)"
      by (cases "execute q m kw w") auto
    then show ?thesis
      using execute_last_timeslice [OF assms b f run] by simp
  qed
qed

lemma execute_step_fields:
  "base_dn (fst (snd (execute q m kw w))) = base_dn q"
  "filter_tmpl (fst (snd (execute q m kw w))) = filter_tmpl q"
  "cache_period (fst (snd (execute q m kw w))) = cache_period q"
  using execute_fields [of q m kw w "fst (execute q m kw w)" "fst (snd (execute q m kw w))"
          "snd (snd (execute q m kw w))"]
  by simp_all


text \<open>
  A run with a clock that does not go backwards: every value in the mapping was
  stored under its key by an execution in the bucket that is stored last.
\<close>

lemma executes_fields:
  "base_dn (executes q m steps) = base_dn q \<and> filter_tmpl (executes q m steps) = filter_tmpl q
   \<and> cache_period (executes q m steps) = cache_period q"
  by (induction steps arbitrary: q) (simp_all add: execute_step_fields)

lemma executes_invariant:
  assumes "cache_period q \<noteq> 0"
    and "\<forall>k v. cache q k = Some v \<longrightarrow>
           (\<exists>s \<in> set past. py_format (base_dn q) (fst s) = Inr (fst k)
              \<and> py_format (filter_tmpl q) (fst s) = Inr (snd k)
              \<and> bucket (cache_period q) (now (snd s)) = last_timeslice q)"
    and "sorted (map (\<lambda>s. bucket (cache_period q) (now (snd s))) steps)"
    and "\<forall>s \<in> set steps. last_timeslice q \<le> bucket (cache_period q) (now (snd s))"
  shows "\<forall>k v. cache (executes q m steps) k = Some v \<longrightarrow>
           (\<exists>s \<in> set (past @ steps). py_format (base_dn q) (fst s) = Inr (fst k)
              \<and> py_format (filter_tmpl q) (fst s) = Inr (snd k)
              \<and> bucket (cache_period q) (now (snd s)) = last_timeslice (executes q m steps))"
  using assms
proof (induction steps arbitrary: q past)
  case Nil
  then show ?case by simp
next
  case (Cons s steps)
  let ?q1 = "fst (snd (execute q m (fst s) (snd s)))"
  let ?B = "bucket (cache_period q) (now (snd s))"
  note fields = execute_step_fields [of q m "fst s" "snd s"]
  have low: "last_timeslice q \<le> ?B"
    using Cons.prems(4) by simp
  have period1: "cache_period ?q1 \<noteq> 0"
    using Cons.prems(1) fields by simp
  have inv1: "\<forall>k v. cache ?q1 k = Some v \<longrightarrow>
           (\<exists>t \<in> set (past @ [s]). py_format (base_dn ?q1) (fst t) = Inr (fst k)
              \<and> py_format (filter_tmpl ?q1) (fst t) = Inr (snd k)
              \<and> bucket (cache_period ?q1) (now (snd t)) = last_timeslice ?q1)"
  proof (intro allI impI)
    fix k v
    assume stored: "cache ?q1 k = Some v"
    from execute_step [OF Cons.prems(1) stored]
    show "\<exists>t \<in> set (past @ [s]). py_format (base_dn ?q1) (fst t) = Inr (fst k)
              \<and> py_format (filter_tmpl ?q1) (fst t) = Inr (snd k)
              \<and> bucket (cache_period ?q1) (now (snd t)) = last_timeslice ?q1"
    proof
      assume old: "cache q k = Some v \<and> last_timeslice ?q1 = last_timeslice q"
      with Cons.prems(2) obtain t where "t \<in> set past"
        "py_format (base_dn q) (fst t) = Inr (fst k)"
        "py_format (filter_tmpl q) (fst t) = Inr (snd k)"
        "bucket (cache_period q) (now (snd t)) = last_timeslice q"
        by blast
      with old fields show ?thesis by auto
    next
      assume new: "py_format (base_dn q) (fst s) = Inr (fst k)
                 \<and> py_format (filter_tmpl q) (fst s) = Inr (snd k)
                 \<and> last_timeslice ?q1 = max (last_timeslice q) ?B"
      with low fields show ?thesis by auto
    qed
  qed
  have sorted1: "sorted (map (\<lambda>t. bucket (cache_period ?q1) (now (snd t))) steps)"
    using Cons.prems(3) fields by simp
  have low1: "\<forall>t \<in> set steps. last_timeslice ?q1 \<le> bucket (cache_period ?q1) (now (snd t))"
  proof
    fix t
    assume t: "t \<in> set steps"
    have "last_timeslice ?q1 \<le> max (last_timeslice q) ?B"
      by (rule execute_step_last [OF Cons.prems(1)])
    moreover have "?B \<le> bucket (cache_period q) (now (snd t))"
      using Cons.prems(3) t by simp
    moreover have "last_timeslice q \<le> bucket (cache_period q) (now (snd t))"
      using Cons.prems(4) t by simp
    ultimately show "last_timeslice ?q1 \<le> bucket (cache_period ?q1) (now (snd t))"
      using fields by simp
  qed
  from Cons.IH [OF period1 inv1 sorted1 low1] fields
  show ?case by simp
qed

lemma executes_last:
  assumes "cache_period q \<noteq> 0"
    and "sorted (map (\<lambda>s. bucket (cache_period q) (now (snd s))) steps)"
    and "\<forall>s \<in> set steps. last_timeslice q \<le> bucket (cache_period q) (now (snd s))"
    and "cache (executes q m steps) k = Some v"
    and "cache q = Map.empty"
  shows "\<exists>s \<in> set steps. py_format (base_dn q) (fst s) = Inr (fst k)
              \<and> py_format (filter_tmpl q) (fst s) = Inr (snd k)
              \<and> bucket (cache_period q) (now (snd s)) = last_timeslice (executes q m steps)"
  using executes_invariant [of q "[]" steps m] assms by simp

subsection \<open>Runs against the small directory\<close>

lemma ex_manager_sel:
  "ldap3 ex_manager = ex_ldap3"
  "conn_user (pooled_args ex_manager) = Str (ustr ''cn=svc'')"
  "conn_password (direct_args ex_manager usr pw) = pw"
  "conn_user (direct_args ex_manager usr pw) = usr"
  by (simp_all add: ex_manager_def pooled_args_def direct_args_def)

lemma ex_ldap3_sel:
  "Connection_ok ex_ldap3 w a
     = (conn_user a = Str (ustr ''cn=svc'') \<or> conn_password a = Str (ustr ''secret'')
        \<or> conn_password a = Str (ustr ''sticky''))"
  "search_ret ex_ldap3 w conn base flt sc atts
     = (if now w < 1000 then None else Some (length (calls w)))"
  "get_response_ret ex_ldap3 w conn ret
     = (case last (calls w) of
          Search c base flt sc atts \<Rightarrow> Some (ex_directory flt)
        | _ \<Rightarrow> None)"
  "exit_ok ex_ldap3 w conn"
  "unbind_ok ex_ldap3 w conn = (conn_password conn \<noteq> Str (ustr ''sticky''))"
  by (simp_all add: ex_ldap3_def)

lemma ex_search:
  assumes "1000 \<le> now w"
  shows "search_with_connection q ex_manager (base, flt) w
     = (Inr (ex_directory flt),
        w\<lparr>calls := calls w @
             [Connect (pooled_args ex_manager),
              Search (pooled_args ex_manager) base flt (scope q) (attributes q),
              Get_response (pooled_args ex_manager) (Suc (length (calls w))),
              Exit (pooled_args ex_manager)]\<rparr>)"
  using assms
  by (simp add: search_with_connection_def connection_def Connection_def conn_search_def
        conn_get_response_def conn_exit_def record_call_def ex_manager_sel ex_ldap3_sel)

lemma ex_search_down:
  assumes "now w < 1000"
  shows "search_with_connection q ex_manager (base, flt) w
     = (Inl LDAPException,
        w\<lparr>calls := calls w @
             [Connect (pooled_args ex_manager),
              Search (pooled_args ex_manager) base flt (scope q) (attributes q),
              Exit (pooled_args ex_manager)]\<rparr>)"
  using assms
  by (simp add: search_with_connection_def connection_def Connection_def conn_search_def
        conn_get_response_def conn_exit_def record_call_def ex_manager_sel ex_ldap3_sel)

lemma ex_format_base: "py_format (ustr ''ou=people'') kw = Inr (ustr ''ou=people'')"
  by (simp add: py_format_def ustr_def)

lemma ex_format_filter:
  "py_format (ustr ''(uid=%(login)s)'') (login_kw (Str (ustr ''alice'')) pw)
     = Inr (ustr ''(uid=alice)'')"
  "py_format (ustr ''(uid=%(login)s)'') (login_kw (Str (ustr ''bob'')) pw)
     = Inr (ustr ''(uid=bob)'')"
  "py_format (ustr ''(uid=%(login)s)'') (login_kw (Str (ustr ''null'')) pw)
     = Inr (ustr ''(uid=null)'')"
  "py_format (ustr ''(member=%(userdn)s)'') [ustr ''userdn'' \<mapsto> escape_for_search (Str (ustr ''uid=carol''))]
     = Inr (ustr ''(member=uid=carol)'')"
  by (simp_all add: py_format_def login_kw_def escape_for_search_def table_get_def
        escape_for_search_table_def ustr_def)

lemma ex_kw_format:
  "py_format (ustr ''(uid=%(login)s)'') (ex_kw ''alice'') = Inr (ustr ''(uid=alice)'')"
  "py_format (ustr ''(uid=%(login)s)'') (ex_kw ''bob'') = Inr (ustr ''(uid=bob)'')"
  "py_format (ustr ''(uid=%(login)s)'') (ex_kw ''null'') = Inr (ustr ''(uid=null)'')"
  by (simp_all add: ex_kw_def ex_format_filter)

lemma ex_query_sel:
  "base_dn ex_login_query = ustr ''ou=people''"
  "filter_tmpl ex_login_query = ustr ''(uid=%(login)s)''"
  "scope ex_login_query = LEVEL"
  "attributes ex_login_query = None"
  "cache_period ex_login_query = 0"
  "base_dn ex_cached_query = ustr ''ou=people''"
  "filter_tmpl ex_cached_query = ustr ''(uid=%(login)s)''"
  "scope ex_cached_query = LEVEL"
  "attributes ex_cached_query = None"
  "cache_period ex_cached_query = 10"
  "last_timeslice ex_cached_query = 0"
  "cache ex_cached_query = Map.empty"
  by (simp_all add: ex_login_query_def ex_cached_query_def LDAPQuery_init_def)

lemma ex_groups_sel:
  "base_dn ex_groups_query = ustr ''ou=groups''"
  "filter_tmpl ex_groups_query = ustr ''(member=%(userdn)s)''"
  "scope ex_groups_query = SUBTREE"
  "attributes ex_groups_query = None"
  "cache_period ex_groups_query = 0"
  by (simp_all add: ex_groups_query_def LDAPQuery_init_def)

lemma ex_format_groups_base: "py_format (ustr ''ou=groups'') kw = Inr (ustr ''ou=groups'')"
  by (simp add: py_format_def ustr_def)

lemma ex_connector_sel:
  "manager ex_connector = ex_manager"
  "registry ex_connector (login_qry_identif ex_connector) = Some ex_login_query"
  "registry ex_connector (group_qry_identif ex_connector) = Some ex_groups_query"
  by (simp_all add: ex_connector_def Connector_init_def ex_registry_def ldap_set_login_query_def
        ldap_set_groups_query_def registry_identifier_def ex_login_query_def ex_groups_query_def
        ustr_def)

lemma ex_world_sel: "now ex_world = 1234.5" "calls ex_world = []"
  "now ex_world_down = 999" "calls ex_world_down = []"
  by (simp_all add: ex_world_def ex_world_down_def)

lemma ex_entry_sel:
  "entry_dn ex_alice = Some (Str (ustr ''uid=alice''))"
  "entry_attributes ex_alice = Some [(ustr ''cn'', [ustr ''Alice''])]"
  "entry_dn ex_bob = Some (Str (ustr ''uid=bob,ou=a''))"
  "entry_attributes ex_bob = Some []"
  "entry_dn ex_bob2 = Some (Str (ustr ''uid=bob,ou=b''))"
  "entry_attributes ex_bob2 = Some []"
  "entry_dn ex_referral = None"
  "entry_attributes ex_referral = None"
  by (simp_all add: ex_bob_def ex_bob2_def ex_referral_def ex_alice_def)

lemma ex_directory_sel:
  "ex_directory (ustr ''(uid=alice)'') = Some [ex_referral, ex_alice]"
  "ex_directory (ustr ''(uid=bob)'') = Some [ex_bob, ex_bob2]"
  "ex_directory (ustr ''(uid=null)'') = None"
  by (simp_all add: ex_directory_def ustr_def)

lemma ex_directory_carol: "ex_directory (ustr ''(member=uid=carol)'') = Some []"
  by (simp add: ex_directory_def ustr_def)

lemma ex_bucket:
  "bucket 10 (2469 / 2) = 1230" "bucket 10 1235 = 1230" "bucket 10 1239 = 1230"
  "bucket 10 1240 = 1240" "bucket 10 1000 = 1000" "bucket 10 1015 = 1010"
  by (simp_all add: bucket_def)

lemmas ex_eval =
  ex_query_sel ex_format_base ex_kw_format ex_search ex_world_sel ex_directory_sel ex_entry_sel
  ex_bucket query_cache_rule

lemma ex_execute_login:
  "execute ex_login_query ex_manager (login_kw (Str (ustr ''bob'')) pw) ex_world
     = (Inr [(Str (ustr ''uid=bob,ou=a''), []), (Str (ustr ''uid=bob,ou=b''), [])],
        ex_login_query,
        ex_world\<lparr>calls :=
           [Connect (pooled_args ex_manager),
            Search (pooled_args ex_manager) (ustr ''ou=people'') (ustr ''(uid=bob)'') LEVEL None,
            Get_response (pooled_args ex_manager) 1,
            Exit (pooled_args ex_manager)]\<rparr>)"
  "execute ex_login_query ex_manager (login_kw (Str (ustr ''alice'')) pw) ex_world
     = (Inr [(Str (ustr ''uid=alice''), [(ustr ''cn'', [ustr ''Alice''])])],
        ex_login_query,
        ex_world\<lparr>calls :=
           [Connect (pooled_args ex_manager),
            Search (pooled_args ex_manager) (ustr ''ou=people'') (ustr ''(uid=alice)'') LEVEL None,
            Get_response (pooled_args ex_manager) 1,
            Exit (pooled_args ex_manager)]\<rparr>)"
  by (simp_all add: execute_uncached_keyed [where b = "ustr ''ou=people''"]
        ex_query_sel ex_format_base ex_format_filter ex_search ex_world_sel ex_directory_sel
        ex_entry_sel)

lemma ex_execute_groups:
  "execute ex_groups_query ex_manager
      [ustr ''userdn'' \<mapsto> escape_for_search (Str (ustr ''uid=carol''))] ex_world
     = (Inr [], ex_groups_query,
        ex_world\<lparr>calls :=
           [Connect (pooled_args ex_manager),
            Search (pooled_args ex_manager) (ustr ''ou=groups'') (ustr ''(member=uid=carol)'')
              SUBTREE None,
            Get_response (pooled_args ex_manager) 1,
            Exit (pooled_args ex_manager)]\<rparr>)"
  "execute ex_groups_query ex_manager
      [ustr ''userdn'' \<mapsto> escape_for_search (Str (ustr ''uid=carol''))] ex_world_down
     = (Inl LDAPException, ex_groups_query,
        ex_world_down\<lparr>calls :=
           [Connect (pooled_args ex_manager),
            Search (pooled_args ex_manager) (ustr ''ou=groups'') (ustr ''(member=uid=carol)'')
              SUBTREE None,
            Exit (pooled_args ex_manager)]\<rparr>)"
  by (simp_all add: execute_uncached_keyed [where b = "ustr ''ou=groups''"]
        ex_groups_sel ex_format_groups_base ex_format_filter ex_search ex_search_down
        ex_world_sel ex_directory_carol)

lemma ex_null_first_eval:
  "ex_null_first =
     (Inr [], ex_cached_query\<lparr>cache := Map.empty, last_timeslice := 1230\<rparr>,
      ex_world\<lparr>calls :=
         [Connect (pooled_args ex_manager),
          Search (pooled_args ex_manager) (ustr ''ou=people'') (ustr ''(uid=null)'') LEVEL None,
          Get_response (pooled_args ex_manager) 1,
          Exit (pooled_args ex_manager)]\<rparr>)"
  unfolding ex_null_first_def
  by (simp add: execute_keyed [where b = "ustr ''ou=people''" and f = "ustr ''(uid=null)''"] ex_eval)

lemma ex_null_second_eval:
  "ex_null_second =
     (Inr [], ex_cached_query\<lparr>cache := Map.empty, last_timeslice := 1230\<rparr>,
      \<lparr>now = 1235, calls =
         [Connect (pooled_args ex_manager),
          Search (pooled_args ex_manager) (ustr ''ou=people'') (ustr ''(uid=null)'') LEVEL None,
          Get_response (pooled_args ex_manager) 1,
          Exit (pooled_args ex_manager),
          Connect (pooled_args ex_manager),
          Search (pooled_args ex_manager) (ustr ''ou=people'') (ustr ''(uid=null)'') LEVEL None,
          Get_response (pooled_args ex_manager) 5,
          Exit (pooled_args ex_manager)]\<rparr>)"
  unfolding ex_null_second_def ex_null_first_eval
  by (simp add: execute_keyed [where b = "ustr ''ou=people''" and f = "ustr ''(uid=null)''"] ex_eval
        ex_world_def)

lemma ex_back_first_eval:
  "ex_back_first =
     (Inr [(Str (ustr ''uid=alice''), [(ustr ''cn'', [ustr ''Alice''])])],
      ex_cached_query\<lparr>last_timeslice := 1230,
        cache := [(ustr ''ou=people'', ustr ''(uid=alice)'')
                    \<mapsto> [(Str (ustr ''uid=alice''), [(ustr ''cn'', [ustr ''Alice''])])]]\<rparr>,
      ex_world\<lparr>calls :=
         [Connect (pooled_args ex_manager),
          Search (pooled_args ex_manager) (ustr ''ou=people'') (ustr ''(uid=alice)'') LEVEL None,
          Get_response (pooled_args ex_manager) 1,
          Exit (pooled_args ex_manager)]\<rparr>)"
  unfolding ex_back_first_def
  by (simp add: execute_keyed [where b = "ustr ''ou=people''" and f = "ustr ''(uid=alice)''"] ex_eval)

lemma ex_back_second_eval:
  "ex_back_second =
     (Inr [(Str (ustr ''uid=bob,ou=a''), []), (Str (ustr ''uid=bob,ou=b''), [])],
      ex_cached_query\<lparr>last_timeslice := 1230,
        cache := [(ustr ''ou=people'', ustr ''(uid=alice)'')
                    \<mapsto> [(Str (ustr ''uid=alice''), [(ustr ''cn'', [ustr ''Alice''])])],
                  (ustr ''ou=people'', ustr ''(uid=bob)'')
                    \<mapsto> [(Str (ustr ''uid=bob,ou=a''), []), (Str (ustr ''uid=bob,ou=b''), [])]]\<rparr>,
      \<lparr>now = 1000, calls =
         [Connect (pooled_args ex_manager),
          Search (pooled_args ex_manager) (ustr ''ou=people'') (ustr ''(uid=alice)'') LEVEL None,
          Get_response (pooled_args ex_manager) 1,
          Exit (pooled_args ex_manager),
          Connect (pooled_args ex_manager),
          Search (pooled_args ex_manager) (ustr ''ou=people'') (ustr ''(uid=bob)'') LEVEL None,
          Get_response (pooled_args ex_manager) 5,
          Exit (pooled_args ex_manager)]\<rparr>)"
proof -
  have other: "(ustr ''ou=people'', ustr ''(uid=bob)'') \<noteq> (ustr ''ou=people'', ustr ''(uid=alice)'')"
    by (simp add: ustr_def)
  show ?thesis
    unfolding ex_back_second_def ex_back_first_eval
    using other
    by (simp add: execute_keyed [where b = "ustr ''ou=people''" and f = "ustr ''(uid=bob)''"]
          ex_eval ex_world_def)
qed

lemma ex_back_third_eval:
  "ex_back_third =
     (Inr [(Str (ustr ''uid=bob,ou=a''), []), (Str (ustr ''uid=bob,ou=b''), [])],
      fst (snd ex_back_second), (snd (snd ex_back_second))\<lparr>now := 1015\<rparr>)"
  unfolding ex_back_third_def ex_back_second_eval
  by (simp add: execute_keyed [where b = "ustr ''ou=people''" and f = "ustr ''(uid=bob)''"] ex_eval)

lemma ex_carol:
  "py_format (ustr ''(uid=%(login)s)'') (ex_kw ''carol'') = Inr (ustr ''(uid=carol)'')"
  "ex_directory (ustr ''(uid=carol)'') = Some []"
  by (simp_all add: py_format_def ex_kw_def login_kw_def escape_for_search_def table_get_def
        escape_for_search_table_def ex_directory_def ustr_def)

lemma ex_carol_execute:
  "execute ex_cached_query ex_manager (ex_kw ''carol'') ex_world =
     (Inr [],
      ex_cached_query\<lparr>last_timeslice := 1230,
        cache := [(ustr ''ou=people'', ustr ''(uid=carol)'') \<mapsto> []]\<rparr>,
      ex_world\<lparr>calls :=
         [Connect (pooled_args ex_manager),
          Search (pooled_args ex_manager) (ustr ''ou=people'') (ustr ''(uid=carol)'') LEVEL None,
          Get_response (pooled_args ex_manager) 1,
          Exit (pooled_args ex_manager)]\<rparr>)"
  by (simp add: execute_keyed [where b = "ustr ''ou=people''" and f = "ustr ''(uid=carol)''"]
        ex_eval ex_carol)

subsection \<open>The response mapping\<close>

text \<open>
  Claim C7. When \<^verbatim>\<open>execute\<close> reaches the directory and the search answers, the result
  is the sequence of \<open>(dn, attributes)\<close> pairs of the records that carry a
  distinguished name, in the order of the response, the records without one being
  dropped; a null response and an empty response both give the empty sequence. The
  records are those of the directory client, where a record that carries \<^verbatim>\<open>'dn'\<close>
  carries \<^verbatim>\<open>'attributes'\<close> too.
\<close>

theorem execute_maps_response:
  assumes "py_format (base_dn q) kw = Inr b" and "py_format (filter_tmpl q) kw = Inr f"
    and "(if cache_period q \<noteq> 0 then query_cache q (b, f) w else (Inr None, q)) = (Inr None, q1)"
    and "search_with_connection q m (b, f) w = (Inr response, w1)"
    and "\<forall>r \<in> set (case response of None \<Rightarrow> [] | Some rs \<Rightarrow> rs).
           entry_dn r \<noteq> None \<longrightarrow> entry_attributes r \<noteq> None"
  shows "fst (execute q m kw w) = Inr (spec_result response)
       \<and> snd (snd (execute q m kw w)) = w1
       \<and> spec_result None = [] \<and> spec_result (Some []) = []"
proof -
  have "scope q1 = scope q \<and> attributes q1 = attributes q"
    using assms(3) query_cache_fields [of q "(b, f)" w "Inr None" q1]
    by (auto split: if_splits)
  then have search: "search_with_connection q1 m (b, f) w = (Inr response, w1)"
    using assms(4) search_with_connection_cong [of q1 q m "(b, f)" w] by simp
  show ?thesis
  proof (cases response)
    case None
    with search show ?thesis
      by (simp add: execute_keyed [OF assms(1,2)] assms(3) spec_result_def)
  next
    case (Some rs)
    with assms(5) have "map_response rs = Inr (spec_result (Some rs))"
      by (intro map_response_spec) simp
    with Some search show ?thesis
      by (simp add: execute_keyed [OF assms(1,2)] assms(3) spec_result_def)
  qed
qed

text \<open>The search for alice: the referral is dropped, the entry is kept.\<close>

theorem execute_maps_response_witness:
  "fst (execute ex_login_query ex_manager (ex_kw ''alice'') ex_world)
     = Inr [(Str (ustr ''uid=alice''), [(ustr ''cn'', [ustr ''Alice''])])]
   \<and> entry_dn ex_referral = None"
proof -
  have reach: "(if cache_period ex_login_query \<noteq> 0
                then query_cache ex_login_query (ustr ''ou=people'', ustr ''(uid=alice)'') ex_world
                else (Inr None, ex_login_query)) = (Inr None, ex_login_query)"
    by (simp add: ex_query_sel)
  have found: "search_with_connection ex_login_query ex_manager
                 (ustr ''ou=people'', ustr ''(uid=alice)'') ex_world
     = (Inr (Some [ex_referral, ex_alice]),
        ex_world\<lparr>calls := calls ex_world @
             [Connect (pooled_args ex_manager),
              Search (pooled_args ex_manager) (ustr ''ou=people'') (ustr ''(uid=alice)'')
                (scope ex_login_query) (attributes ex_login_query),
              Get_response (pooled_args ex_manager) (Suc (length (calls ex_world))),
              Exit (pooled_args ex_manager)]\<rparr>)"
    by (simp add: ex_search ex_world_sel ex_directory_sel)
  have named: "\<forall>r \<in> set (case Some [ex_referral, ex_alice] of None \<Rightarrow> [] | Some rs \<Rightarrow> rs).
                 entry_dn r \<noteq> None \<longrightarrow> entry_attributes r \<noteq> None"
    by (simp add: ex_entry_sel)
  show ?thesis
    using execute_maps_response [of ex_login_query "ex_kw ''alice''", OF _ _ reach found named]
    by (simp add: ex_query_sel ex_format_base ex_format_filter ex_kw_def spec_result_def
          ex_entry_sel)
qed

subsection \<open>A zero period\<close>

text \<open>
  Claim C10. With a cache period of 0, \<^verbatim>\<open>execute\<close> leaves the query object as it found
  it (nothing is stored, nothing flushed), its outcome does not depend on the
  mapping or the last bucket (nothing is read), the directory is contacted whenever
  both templates format, and the result is never \<^verbatim>\<open>ZeroDivisionError\<close>, which is what
  the bucket computation would raise for this period.
\<close>

theorem execute_without_cache:
  assumes "cache_period q = 0"
  shows "fst (snd (execute q m kw w)) = q
       \<and> execute (q\<lparr>last_timeslice := l, cache := c\<rparr>) m kw w
           = (fst (execute q m kw w), q\<lparr>last_timeslice := l, cache := c\<rparr>,
              snd (snd (execute q m kw w)))
       \<and> fst (execute q m kw w) \<noteq> Inl ZeroDivisionError
       \<and> (py_format (base_dn q) kw = Inr b \<and> py_format (filter_tmpl q) kw = Inr f \<longrightarrow>
            take (Suc (length (calls w))) (calls (snd (snd (execute q m kw w))))
              = calls w @ [Connect (pooled_args m)])
       \<and> timeslice (cache_period q) (now w) = Inl ZeroDivisionError"
proof -
  let ?q' = "q\<lparr>last_timeslice := l, cache := c\<rparr>"
  have period': "cache_period ?q' = 0" using assms by simp
  have search': "search_with_connection ?q' m k w = search_with_connection q m k w" for k
    by (rule search_with_connection_cong) simp_all
  have unread: "execute ?q' m kw w = (fst (execute q m kw w), ?q', snd (snd (execute q m kw w)))"
  proof (cases "py_format (base_dn q) kw")
    case (Inl e)
    then show ?thesis by (simp add: execute_unkeyed)
  next
    case b: (Inr b')
    show ?thesis
    proof (cases "py_format (filter_tmpl q) kw")
      case (Inl e)
      with b show ?thesis by (simp add: execute_unkeyed)
    next
      case f: (Inr f')
      have b': "py_format (base_dn ?q') kw = Inr b'" and f': "py_format (filter_tmpl ?q') kw = Inr f'"
        using b f by simp_all
      show ?thesis
        unfolding execute_uncached_keyed [OF assms b f] execute_uncached_keyed [OF period' b' f'] search'
        by (simp split: prod.splits sum.splits option.splits)
    qed
  qed
  have unwritten: "fst (snd (execute q m kw w)) = q"
  proof (cases "py_format (base_dn q) kw")
    case (Inl e)
    then show ?thesis by (simp add: execute_unkeyed)
  next
    case b: (Inr b')
    show ?thesis
    proof (cases "py_format (filter_tmpl q) kw")
      case (Inl e)
      with b show ?thesis by (simp add: execute_unkeyed)
    next
      case f: (Inr f')
      show ?thesis
        unfolding execute_uncached_keyed [OF assms b f]
        by (simp split: prod.splits sum.splits option.splits)
    qed
  qed
  have backend: "take (Suc (length (calls w))) (calls (snd (snd (execute q m kw w))))
                   = calls w @ [Connect (pooled_args m)]"
    if "py_format (base_dn q) kw = Inr b" "py_format (filter_tmpl q) kw = Inr f"
    using search_with_connection_calls [of w q m "(b, f)"]
    unfolding execute_uncached_keyed [OF assms that]
    by (auto split: prod.splits sum.splits option.splits)
  show ?thesis
    using unread unwritten backend execute_never_divides_by_zero [of q m kw w] assms
    by (simp add: timeslice_zero)
qed

text \<open>The uncached login query, searching for bob.\<close>

theorem execute_without_cache_witness:
  "cache_period ex_login_query = 0
   \<and> fst (snd (execute ex_login_query ex_manager (ex_kw ''bob'') ex_world)) = ex_login_query
   \<and> fst (execute ex_login_query ex_manager (ex_kw ''bob'') ex_world) \<noteq> Inl ZeroDivisionError
   \<and> take 1 (calls (snd (snd (execute ex_login_query ex_manager (ex_kw ''bob'') ex_world))))
       = [Connect (pooled_args ex_manager)]"
  using execute_without_cache [of ex_login_query ex_manager "ex_kw ''bob''" ex_world
          _ _ "ustr ''ou=people''" "ustr ''(uid=bob)''"]
  by (simp add: ex_query_sel ex_format_base ex_format_filter ex_kw_def ex_world_sel)

subsection \<open>Generations of the cache\<close>

text \<open>
  Claim C5, amended. For a query with a nonzero period, a lookup computes the bucket
  of the current time and, if it is strictly greater than the stored last bucket,
  discards the whole mapping and stores the bucket. An execution whose key is in the
  mapping after that returns the value and touches neither the query nor the world.
  One whose key is not there searches, and stores the mapped result under the key,
  on top of the mapping as the lookup left it, whenever the response is not null,
  an empty result included; after a null response it returns the empty sequence
  and stores nothing. So the value an execution returns is in the mapping
  afterwards unless the response was null, and the next execution with the same
  key in the same bucket then returns it with the query and the world unchanged,
  hence without a call to the directory. If the stored last bucket was not ahead of
  the execution's bucket, a lookup of any key in a strictly later bucket misses and
  flushes, and the execution contacts the directory. And in every run of executions
  that starts from an empty mapping with a clock that does not go backwards, a
  lookup is served a value only if an execution of the run had the same key in the
  lookup's own bucket.
\<close>

theorem query_cache_generation:
  assumes "cache_period q \<noteq> 0"
    and "py_format (base_dn q) kw = Inr b" and "py_format (filter_tmpl q) kw = Inr f"
  shows "timeslice (cache_period q) (now w) = Inr (bucket (cache_period q) (now w))
       \<and> query_cache q k w = (Inr (cache (flushed q w) k), flushed q w)
       \<and> (cache (flushed q w) (b, f) = Some r \<longrightarrow>
            execute q m kw w = (Inr r, flushed q w, w))
       \<and> (cache (flushed q w) (b, f) = None \<longrightarrow>
            execute q m kw w =
              (case search_with_connection q m (b, f) w of
                 (Inl e, w1) \<Rightarrow> (Inl e, flushed q w, w1)
               | (Inr None, w1) \<Rightarrow> (Inr [], flushed q w, w1)
               | (Inr (Some rs), w1) \<Rightarrow>
                   (case map_response rs of
                      Inl e \<Rightarrow> (Inl e, flushed q w, w1)
                    | Inr result \<Rightarrow>
                        (Inr result,
                         (flushed q w)\<lparr>cache := (cache (flushed q w))((b, f) \<mapsto> result)\<rparr>,
                         w1))))
       \<and> (execute q m kw w = (Inr result, q1, w1) \<longrightarrow>
            (if cache (flushed q w) (b, f) = None
                \<and> fst (search_with_connection q m (b, f) w) = Inr None
             then result = [] \<and> cache q1 (b, f) = None
             else cache q1 (b, f) = Some result))
       \<and> (execute q m kw w = (Inr result, q1, w1) \<and> cache q1 (b, f) = Some result
            \<and> bucket (cache_period q) (now w2) = bucket (cache_period q) (now w) \<longrightarrow>
              execute q1 m kw w2 = (Inr result, q1, w2))
       \<and> (execute q m kw w = (Inr result, q1, w1)
            \<and> last_timeslice q \<le> bucket (cache_period q) (now w)
            \<and> bucket (cache_period q) (now w) < bucket (cache_period q) (now w2) \<longrightarrow>
              query_cache q1 k w2
                = (Inr None,
                   q1\<lparr>cache := Map.empty, last_timeslice := bucket (cache_period q) (now w2)\<rparr>)
              \<and> take (Suc (length (calls w2))) (calls (snd (snd (execute q1 m kw w2))))
                  = calls w2 @ [Connect (pooled_args m)])
       \<and> (cache q = Map.empty
            \<and> sorted (map (\<lambda>s. bucket (cache_period q) (now (snd s))) steps)
            \<and> (\<forall>s \<in> set steps. last_timeslice q \<le> bucket (cache_period q) (now (snd s))
                                 \<and> bucket (cache_period q) (now (snd s))
                                     \<le> bucket (cache_period q) (now w2))
            \<and> fst (query_cache (executes q m steps) k w2) = Inr (Some v) \<longrightarrow>
              (\<exists>s \<in> set steps. py_format (base_dn q) (fst s) = Inr (fst k)
                 \<and> py_format (filter_tmpl q) (fst s) = Inr (snd k)
                 \<and> bucket (cache_period q) (now (snd s)) = bucket (cache_period q) (now w2)))"
proof -
  let ?P = "cache_period q"
  have stored: "if cache (flushed q w) (b, f) = None
                   \<and> fst (search_with_connection q m (b, f) w) = Inr None
                then result = [] \<and> cache q1 (b, f) = None
                else cache q1 (b, f) = Some result"
    if run: "execute q m kw w = (Inr result, q1, w1)"
  proof (cases "cache (flushed q w) (b, f)")
    case (Some r)
    with run show ?thesis
      unfolding execute_flushed_hit [OF assms Some] by auto
  next
    case None
    with run show ?thesis
      unfolding execute_flushed_miss [OF assms None]
      by (auto split: prod.splits sum.splits option.splits)
  qed
  have again: "execute q1 m kw w2 = (Inr result, q1, w2)"
    if run: "execute q m kw w = (Inr result, q1, w1)" and kept: "cache q1 (b, f) = Some result"
      and same: "bucket ?P (now w2) = bucket ?P (now w)"
  proof -
    note fields = execute_fields [OF run]
    have "last_timeslice q1 = max (last_timeslice q) (bucket ?P (now w))"
      by (rule execute_last_timeslice [OF assms run])
    with same fields have "bucket (cache_period q1) (now w2) \<le> last_timeslice q1" by simp
    with kept fields assms show ?thesis
      by (intro execute_hit) simp_all
  qed
  have later: "query_cache q1 k w2
                = (Inr None, q1\<lparr>cache := Map.empty, last_timeslice := bucket ?P (now w2)\<rparr>)
              \<and> take (Suc (length (calls w2))) (calls (snd (snd (execute q1 m kw w2))))
                  = calls w2 @ [Connect (pooled_args m)]"
    if run: "execute q m kw w = (Inr result, q1, w1)"
      and low: "last_timeslice q \<le> bucket ?P (now w)"
      and next_bucket: "bucket ?P (now w) < bucket ?P (now w2)"
  proof -
    note fields = execute_fields [OF run]
    have period1: "cache_period q1 \<noteq> 0" using fields assms(1) by simp
    have b1: "py_format (base_dn q1) kw = Inr b" and f1: "py_format (filter_tmpl q1) kw = Inr f"
      using fields assms(2,3) by simp_all
    have "last_timeslice q1 = max (last_timeslice q) (bucket ?P (now w))"
      by (rule execute_last_timeslice [OF assms run])
    with low next_bucket fields
    have ahead: "last_timeslice q1 < bucket (cache_period q1) (now w2)" by simp
    show ?thesis
      using execute_miss [OF period1 b1 f1 ahead, of m] ahead fields
      by (simp add: query_cache_rule [OF period1])
  qed
  have trace: "\<exists>s \<in> set steps. py_format (base_dn q) (fst s) = Inr (fst k)
                 \<and> py_format (filter_tmpl q) (fst s) = Inr (snd k)
                 \<and> bucket ?P (now (snd s)) = bucket ?P (now w2)"
    if fresh: "cache q = Map.empty"
      and ordered: "sorted (map (\<lambda>s. bucket ?P (now (snd s))) steps)"
      and bounds: "\<forall>s \<in> set steps. last_timeslice q \<le> bucket ?P (now (snd s))
                                 \<and> bucket ?P (now (snd s)) \<le> bucket ?P (now w2)"
      and served: "fst (query_cache (executes q m steps) k w2) = Inr (Some v)"
  proof -
    let ?qn = "executes q m steps"
    have fields: "cache_period ?qn = ?P"
      using executes_fields [of q m steps] by simp
    with assms(1) have period: "cache_period ?qn \<noteq> 0" by simp
    from served have kept: "cache ?qn k = Some v"
      and current: "bucket ?P (now w2) \<le> last_timeslice ?qn"
      unfolding query_cache_rule [OF period] fields
      by (auto split: if_splits)
    from bounds have low: "\<forall>s \<in> set steps. last_timeslice q \<le> bucket ?P (now (snd s))"
      by simp
    from executes_last [OF assms(1) ordered low kept fresh]
    obtain s where s: "s \<in> set steps" "py_format (base_dn q) (fst s) = Inr (fst k)"
      "py_format (filter_tmpl q) (fst s) = Inr (snd k)"
      "bucket ?P (now (snd s)) = last_timeslice ?qn"
      by blast
    with bounds current have "bucket ?P (now (snd s)) = bucket ?P (now w2)"
      by fastforce
    with s show ?thesis by blast
  qed
  show ?thesis
    using stored again later trace
      execute_flushed_hit [OF assms, of w r m] execute_flushed_miss [OF assms, of w m]
      query_cache_flushed [OF assms(1), of k w] timeslice_bucket [OF assms(1), of "now w"]
    by (intro conjI impI) blast+
qed

text \<open>
  The cached query after the search for alice at second 1234.5: a hit at second 1239
  and a miss at second 1240, also when the search is taken as a run of one
  execution; and the empty result of the search for carol is stored.
\<close>

theorem query_cache_generation_witness:
  "cache_period ex_cached_query \<noteq> 0
   \<and> execute (fst (snd ex_back_first)) ex_manager (ex_kw ''alice'')
         ((snd (snd ex_back_first))\<lparr>now := 1239\<rparr>)
       = (Inr [(Str (ustr ''uid=alice''), [(ustr ''cn'', [ustr ''Alice''])])],
          fst (snd ex_back_first), (snd (snd ex_back_first))\<lparr>now := 1239\<rparr>)
   \<and> fst (query_cache (fst (snd ex_back_first)) (ustr ''ou=people'', ustr ''(uid=alice)'')
            ((snd (snd ex_back_first))\<lparr>now := 1240\<rparr>)) = Inr None
   \<and> cache (fst (snd (execute ex_cached_query ex_manager (ex_kw ''carol'') ex_world)))
        (ustr ''ou=people'', ustr ''(uid=carol)'') = Some []
   \<and> fst (query_cache (executes ex_cached_query ex_manager [(ex_kw ''alice'', ex_world)])
            (ustr ''ou=people'', ustr ''(uid=alice)'') (ex_world\<lparr>now := 1240\<rparr>))
       \<noteq> Inr (Some [(Str (ustr ''uid=alice''), [(ustr ''cn'', [ustr ''Alice''])])])"
proof -
  have period: "cache_period ex_cached_query \<noteq> 0"
    by (simp add: ex_query_sel)
  have b: "py_format (base_dn ex_cached_query) (ex_kw login) = Inr (ustr ''ou=people'')" for login
    by (simp add: ex_query_sel ex_format_base)
  have f: "py_format (filter_tmpl ex_cached_query) (ex_kw ''alice'') = Inr (ustr ''(uid=alice)'')"
    and f': "py_format (filter_tmpl ex_cached_query) (ex_kw ''carol'') = Inr (ustr ''(uid=carol)'')"
    by (simp_all add: ex_query_sel ex_kw_format ex_carol)
  have first: "execute ex_cached_query ex_manager (ex_kw ''alice'') ex_world
                 = (Inr [(Str (ustr ''uid=alice''), [(ustr ''cn'', [ustr ''Alice''])])],
                    fst (snd ex_back_first), snd (snd ex_back_first))"
    using ex_back_first_eval by (simp add: ex_back_first_def)
  have found: "fst (search_with_connection ex_cached_query ex_manager
                 (ustr ''ou=people'', ustr ''(uid=carol)'') ex_world) = Inr (Some [])"
    by (simp add: ex_search ex_world_sel ex_carol)
  have hit: "execute (fst (snd ex_back_first)) ex_manager (ex_kw ''alice'')
         ((snd (snd ex_back_first))\<lparr>now := 1239\<rparr>)
       = (Inr [(Str (ustr ''uid=alice''), [(ustr ''cn'', [ustr ''Alice''])])],
          fst (snd ex_back_first), (snd (snd ex_back_first))\<lparr>now := 1239\<rparr>)"
  proof -
    have kept: "cache (fst (snd ex_back_first)) (ustr ''ou=people'', ustr ''(uid=alice)'')
                  = Some [(Str (ustr ''uid=alice''), [(ustr ''cn'', [ustr ''Alice''])])]"
      by (simp add: ex_back_first_eval)
    have same: "bucket (cache_period ex_cached_query)
                  (now ((snd (snd ex_back_first))\<lparr>now := 1239\<rparr>))
                = bucket (cache_period ex_cached_query) (now ex_world)"
      by (simp add: ex_query_sel ex_world_sel ex_bucket)
    from query_cache_generation [OF period b f,
        of ex_world _ _ ex_manager "[(Str (ustr ''uid=alice''), [(ustr ''cn'', [ustr ''Alice''])])]"
           "fst (snd ex_back_first)" "snd (snd ex_back_first)"
           "(snd (snd ex_back_first))\<lparr>now := 1239\<rparr>"]
    show ?thesis using first kept same by blast
  qed
  have miss: "fst (query_cache (fst (snd ex_back_first)) (ustr ''ou=people'', ustr ''(uid=alice)'')
            ((snd (snd ex_back_first))\<lparr>now := 1240\<rparr>)) = Inr None"
  proof -
    have low: "last_timeslice ex_cached_query \<le> bucket (cache_period ex_cached_query) (now ex_world)"
      by (simp add: ex_query_sel ex_world_sel ex_bucket)
    have later: "bucket (cache_period ex_cached_query) (now ex_world)
                   < bucket (cache_period ex_cached_query)
                       (now ((snd (snd ex_back_first))\<lparr>now := 1240\<rparr>))"
      by (simp add: ex_query_sel ex_world_sel ex_bucket)
    from query_cache_generation [OF period b f,
        of ex_world "(ustr ''ou=people'', ustr ''(uid=alice)'')" _ ex_manager
           "[(Str (ustr ''uid=alice''), [(ustr ''cn'', [ustr ''Alice''])])]"
           "fst (snd ex_back_first)" "snd (snd ex_back_first)"
           "(snd (snd ex_back_first))\<lparr>now := 1240\<rparr>"]
    have "query_cache (fst (snd ex_back_first)) (ustr ''ou=people'', ustr ''(uid=alice)'')
            ((snd (snd ex_back_first))\<lparr>now := 1240\<rparr>)
          = (Inr None,
             (fst (snd ex_back_first))\<lparr>cache := Map.empty,
                last_timeslice := bucket (cache_period ex_cached_query)
                   (now ((snd (snd ex_back_first))\<lparr>now := 1240\<rparr>))\<rparr>)"
      using first low later by blast
    then show ?thesis by simp
  qed
  have empty_stored:
    "cache (fst (snd (execute ex_cached_query ex_manager (ex_kw ''carol'') ex_world)))
        (ustr ''ou=people'', ustr ''(uid=carol)'') = Some []"
  proof -
    have run: "execute ex_cached_query ex_manager (ex_kw ''carol'') ex_world
                 = (Inr [], fst (snd (execute ex_cached_query ex_manager (ex_kw ''carol'') ex_world)),
                    snd (snd (execute ex_cached_query ex_manager (ex_kw ''carol'') ex_world)))"
      by (simp add: ex_carol_execute)
    have not_null: "\<not> (cache (flushed ex_cached_query ex_world)
                          (ustr ''ou=people'', ustr ''(uid=carol)'') = None
                       \<and> fst (search_with_connection ex_cached_query ex_manager
                                (ustr ''ou=people'', ustr ''(uid=carol)'') ex_world) = Inr None)"
      by (simp add: found)
    from query_cache_generation [OF period b f',
        of ex_world _ _ ex_manager "[]"
           "fst (snd (execute ex_cached_query ex_manager (ex_kw ''carol'') ex_world))"
           "snd (snd (execute ex_cached_query ex_manager (ex_kw ''carol'') ex_world))"]
    have "if cache (flushed ex_cached_query ex_world)
                (ustr ''ou=people'', ustr ''(uid=carol)'') = None
             \<and> fst (search_with_connection ex_cached_query ex_manager
                      (ustr ''ou=people'', ustr ''(uid=carol)'') ex_world) = Inr None
          then [] = ([] :: match list)
             \<and> cache (fst (snd (execute ex_cached_query ex_manager (ex_kw ''carol'') ex_world)))
                  (ustr ''ou=people'', ustr ''(uid=carol)'') = None
          else cache (fst (snd (execute ex_cached_query ex_manager (ex_kw ''carol'') ex_world)))
                  (ustr ''ou=people'', ustr ''(uid=carol)'') = Some []"
      using run by blast
    with not_null show ?thesis by (simp only: if_False)
  qed
  have not_served:
    "fst (query_cache (executes ex_cached_query ex_manager [(ex_kw ''alice'', ex_world)])
            (ustr ''ou=people'', ustr ''(uid=alice)'') (ex_world\<lparr>now := 1240\<rparr>))
       \<noteq> Inr (Some [(Str (ustr ''uid=alice''), [(ustr ''cn'', [ustr ''Alice''])])])"
  proof
    assume served:
      "fst (query_cache (executes ex_cached_query ex_manager [(ex_kw ''alice'', ex_world)])
            (ustr ''ou=people'', ustr ''(uid=alice)'') (ex_world\<lparr>now := 1240\<rparr>))
         = Inr (Some [(Str (ustr ''uid=alice''), [(ustr ''cn'', [ustr ''Alice''])])])"
    have fresh: "cache ex_cached_query = Map.empty"
      by (simp add: ex_query_sel)
    have ordered: "sorted (map (\<lambda>s. bucket (cache_period ex_cached_query) (now (snd s)))
                     [(ex_kw ''alice'', ex_world)])"
      by simp
    have bounds: "\<forall>s \<in> set [(ex_kw ''alice'', ex_world)].
                    last_timeslice ex_cached_query \<le> bucket (cache_period ex_cached_query) (now (snd s))
                    \<and> bucket (cache_period ex_cached_query) (now (snd s))
                        \<le> bucket (cache_period ex_cached_query) (now (ex_world\<lparr>now := 1240\<rparr>))"
      by (simp add: ex_query_sel ex_world_sel ex_bucket)
    from query_cache_generation [OF period b f,
        of ex_world "(ustr ''ou=people'', ustr ''(uid=alice)'')" _ ex_manager _ _ _
           "ex_world\<lparr>now := 1240\<rparr>" "[(ex_kw ''alice'', ex_world)]"
           "[(Str (ustr ''uid=alice''), [(ustr ''cn'', [ustr ''Alice''])])]"]
    have "\<exists>s \<in> set [(ex_kw ''alice'', ex_world)].
            py_format (base_dn ex_cached_query) (fst s) = Inr (fst (ustr ''ou=people'', ustr ''(uid=alice)''))
            \<and> py_format (filter_tmpl ex_cached_query) (fst s) = Inr (snd (ustr ''ou=people'', ustr ''(uid=alice)''))
            \<and> bucket (cache_period ex_cached_query) (now (snd s))
                = bucket (cache_period ex_cached_query) (now (ex_world\<lparr>now := 1240\<rparr>))"
      using fresh ordered bounds served by blast
    then show False
      by (simp add: ex_query_sel ex_world_sel ex_bucket)
  qed
  show ?thesis
    using period hit miss empty_stored not_served by blast
qed

text \<open>
  Claim C5 as stated fails in two ways. A null response is returned as the empty
  sequence and not stored, so the second lookup of \<^verbatim>\<open>(uid=null)\<close> in the same bucket
  calls the directory again. And after a lookup at second 1234.5 has stored the
  bucket 1230, a result stored at second 1000 is still returned at second 1015, in a
  strictly later bucket, without a call to the directory.
\<close>

theorem query_cache_generation_counterexample:
  "bucket 10 (now ex_world) = bucket 10 1235
   \<and> fst ex_null_first = Inr []
   \<and> length (calls (snd (snd ex_null_first))) = 4
   \<and> length (calls (snd (snd ex_null_second))) = 8
   \<and> bucket 10 1000 < bucket 10 1015
   \<and> fst ex_back_second = Inr [(Str (ustr ''uid=bob,ou=a''), []), (Str (ustr ''uid=bob,ou=b''), [])]
   \<and> length (calls (snd (snd ex_back_second))) = 8
   \<and> ex_back_third =
       (Inr [(Str (ustr ''uid=bob,ou=a''), []), (Str (ustr ''uid=bob,ou=b''), [])],
        fst (snd ex_back_second), (snd (snd ex_back_second))\<lparr>now := 1015\<rparr>)"
  using ex_back_third_eval
  by (simp add: ex_null_first_eval ex_null_second_eval ex_back_second_eval ex_bucket ex_world_sel)

section \<open>Properties of the connector\<close>

text \<open>
  Claim C1. With the empty string as password, \<^verbatim>\<open>authenticate\<close> returns \<^verbatim>\<open>None\<close> for
  every login, connector and registry, registered or not; the connector and the
  world are unchanged, so no call reached the directory and nothing was raised.
\<close>

theorem authenticate_empty_password:
  "authenticate self login (Str []) w = (Inr None, self, w)"
  by (simp add: authenticate_def)

text \<open>A connector over the empty registry.\<close>

theorem authenticate_empty_password_witness:
  "authenticate (Connector_init Map.empty ex_manager None) (Str (ustr ''alice'')) (Str []) ex_world
     = (Inr None, Connector_init Map.empty ex_manager None, ex_world)"
  using authenticate_empty_password
          [of "Connector_init Map.empty ex_manager None" "Str (ustr ''alice'')" ex_world]
  by simp

text \<open>
  Claim C2. With a password other than the empty string, if the login query returns
  no match or more than one, \<^verbatim>\<open>authenticate\<close> returns \<^verbatim>\<open>None\<close> and the world is the one
  the query left: no bind is attempted, whatever the directory would have answered
  to it.
\<close>

theorem authenticate_requires_unique_match:
  assumes "password \<noteq> Str []"
    and "registry self (login_qry_identif self) = Some search"
    and "execute search (manager self) (login_kw login password) w = (Inr result, search1, w1)"
    and "result = [] \<or> 1 < length result"
  shows "authenticate self login password w =
           (Inr None, self\<lparr>registry := (registry self)(login_qry_identif self \<mapsto> search1)\<rparr>, w1)"
  using assms by (auto simp: authenticate_def)

text \<open>
  Two entries match bob, and the first would bind with the password given.
\<close>

theorem authenticate_requires_unique_match_witness:
  "fst (authenticate ex_connector (Str (ustr ''bob'')) (Str (ustr ''secret'')) ex_world) = Inr None
   \<and> calls (snd (snd (authenticate ex_connector (Str (ustr ''bob'')) (Str (ustr ''secret'')) ex_world)))
       = [Connect (pooled_args ex_manager),
          Search (pooled_args ex_manager) (ustr ''ou=people'') (ustr ''(uid=bob)'') LEVEL None,
          Get_response (pooled_args ex_manager) 1,
          Exit (pooled_args ex_manager)]
   \<and> Connection_ok ex_ldap3 ex_world
        (direct_args ex_manager (Str (ustr ''uid=bob,ou=a'')) (Str (ustr ''secret'')))"
proof -
  have password: "Str (ustr ''secret'') \<noteq> Str []"
    by (simp add: ustr_def)
  have two: "[(Str (ustr ''uid=bob,ou=a''), []), (Str (ustr ''uid=bob,ou=b''), [])] = []
           \<or> 1 < length [(Str (ustr ''uid=bob,ou=a''), [] :: attrs), (Str (ustr ''uid=bob,ou=b''), [])]"
    by simp
  have found: "execute ex_login_query (manager ex_connector)
                 (login_kw (Str (ustr ''bob'')) (Str (ustr ''secret''))) ex_world
     = (Inr [(Str (ustr ''uid=bob,ou=a''), []), (Str (ustr ''uid=bob,ou=b''), [])],
        ex_login_query,
        ex_world\<lparr>calls :=
           [Connect (pooled_args ex_manager),
            Search (pooled_args ex_manager) (ustr ''ou=people'') (ustr ''(uid=bob)'') LEVEL None,
            Get_response (pooled_args ex_manager) 1,
            Exit (pooled_args ex_manager)]\<rparr>)"
    using ex_execute_login(1) by (simp add: ex_connector_sel)
  show ?thesis
    using authenticate_requires_unique_match [OF password ex_connector_sel(2) found two]
    by (simp add: ex_ldap3_sel ex_manager_sel)
qed

text \<open>
  A single match with a distinguished name. When the login query returns exactly
  one match \<open>(D, a)\<close> with a non-empty \<open>D\<close>, \<^verbatim>\<open>authenticate\<close> opens a direct,
  synchronous, unpooled connection as \<open>D\<close> with the password given and unbinds it
  at once. If the bind or the unbind raises \<^verbatim>\<open>LDAPException\<close> the result is \<^verbatim>\<open>None\<close>
  and nothing is raised; otherwise it is the match. Every connection that was
  opened is unbound: the calls end with the bind alone when it failed, and with
  the bind and the unbind otherwise.
\<close>

lemma authenticate_single_match:
  assumes "password \<noteq> Str []"
    and "registry self (login_qry_identif self) = Some search"
    and "execute search (manager self) (login_kw login password) w = (Inr [(D, a)], search1, w1)"
    and "truthy D"
  shows "authenticate self login password w =
           (if Connection_ok (ldap3 (manager self)) w1 (direct_args (manager self) D password)
               \<and> unbind_ok (ldap3 (manager self))
                     (record_call (Connect (direct_args (manager self) D password)) w1)
                     (direct_args (manager self) D password)
            then Inr (Some (D, a)) else Inr None,
            self\<lparr>registry := (registry self)(login_qry_identif self \<mapsto> search1)\<rparr>,
            w1\<lparr>calls := calls w1 @
               (if Connection_ok (ldap3 (manager self)) w1 (direct_args (manager self) D password)
                then [Connect (direct_args (manager self) D password),
                      Unbind (direct_args (manager self) D password)]
                else [Connect (direct_args (manager self) D password)])\<rparr>)
       \<and> conn_user (direct_args (manager self) D password) = D
       \<and> conn_password (direct_args (manager self) D password) = password
       \<and> conn_client_strategy (direct_args (manager self) D password) = SYNC
       \<and> conn_pool_name (direct_args (manager self) D password) = None"
  using assms
  by (simp add: authenticate_def verify_bind_def connection_def Connection_def conn_unbind_def
        record_call_def direct_args_def)

text \<open>
  Alice with a wrong password, with a password whose connection cannot be unbound,
  and with the right one.
\<close>

lemma authenticate_single_match_run:
  "fst (authenticate ex_connector (Str (ustr ''alice'')) (Str (ustr ''wrong'')) ex_world) = Inr None
   \<and> fst (authenticate ex_connector (Str (ustr ''alice'')) (Str (ustr ''sticky'')) ex_world) = Inr None
   \<and> fst (authenticate ex_connector (Str (ustr ''alice'')) (Str (ustr ''secret'')) ex_world)
       = Inr (Some (Str (ustr ''uid=alice''), [(ustr ''cn'', [ustr ''Alice''])]))
   \<and> drop 4 (calls (snd (snd
         (authenticate ex_connector (Str (ustr ''alice'')) (Str (ustr ''wrong'')) ex_world))))
       = [Connect (direct_args ex_manager (Str (ustr ''uid=alice'')) (Str (ustr ''wrong'')))]
   \<and> drop 4 (calls (snd (snd
         (authenticate ex_connector (Str (ustr ''alice'')) (Str (ustr ''sticky'')) ex_world))))
       = [Connect (direct_args ex_manager (Str (ustr ''uid=alice'')) (Str (ustr ''sticky''))),
          Unbind (direct_args ex_manager (Str (ustr ''uid=alice'')) (Str (ustr ''sticky'')))]"
proof -
  have password: "Str (ustr ''wrong'') \<noteq> Str []" "Str (ustr ''sticky'') \<noteq> Str []"
    "Str (ustr ''secret'') \<noteq> Str []"
    by (simp_all add: ustr_def)
  have dn: "truthy (Str (ustr ''uid=alice''))"
    by (simp add: ustr_def)
  have found: "execute ex_login_query (manager ex_connector)
                 (login_kw (Str (ustr ''alice'')) pw) ex_world
     = (Inr [(Str (ustr ''uid=alice''), [(ustr ''cn'', [ustr ''Alice''])])],
        ex_login_query,
        ex_world\<lparr>calls :=
           [Connect (pooled_args ex_manager),
            Search (pooled_args ex_manager) (ustr ''ou=people'') (ustr ''(uid=alice)'') LEVEL None,
            Get_response (pooled_args ex_manager) 1,
            Exit (pooled_args ex_manager)]\<rparr>)" for pw
    using ex_execute_login(2) by (simp add: ex_connector_sel)
  show ?thesis
    using authenticate_single_match [OF password(1) ex_connector_sel(2) found dn]
      authenticate_single_match [OF password(2) ex_connector_sel(2) found dn]
      authenticate_single_match [OF password(3) ex_connector_sel(2) found dn]
    by (simp add: ex_connector_sel ex_ldap3_sel ex_manager_sel record_call_def ustr_def)
qed

text \<open>
  A single match whose distinguished name is falsy: \<^verbatim>\<open>connection\<close> takes its other
  branch and opens the pooled connection with the manager's own identity and
  password; the password given to \<^verbatim>\<open>authenticate\<close> is not used.
\<close>

lemma authenticate_single_match_pooled:
  assumes "password \<noteq> Str []"
    and "registry self (login_qry_identif self) = Some search"
    and "execute search (manager self) (login_kw login password) w = (Inr [(D, a)], search1, w1)"
    and "\<not> truthy D"
  shows "authenticate self login password w =
           (if Connection_ok (ldap3 (manager self)) w1 (pooled_args (manager self))
               \<and> unbind_ok (ldap3 (manager self))
                     (record_call (Connect (pooled_args (manager self))) w1)
                     (pooled_args (manager self))
            then Inr (Some (D, a)) else Inr None,
            self\<lparr>registry := (registry self)(login_qry_identif self \<mapsto> search1)\<rparr>,
            w1\<lparr>calls := calls w1 @
               (if Connection_ok (ldap3 (manager self)) w1 (pooled_args (manager self))
                then [Connect (pooled_args (manager self)), Unbind (pooled_args (manager self))]
                else [Connect (pooled_args (manager self))])\<rparr>)"
  using assms
  by (simp add: authenticate_def verify_bind_def connection_def Connection_def conn_unbind_def
        record_call_def)

lemma ex_root_sel:
  "ldap3 ex_root_manager = ex_root_ldap3"
  "manager ex_root_connector = ex_root_manager"
  "registry ex_root_connector (login_qry_identif ex_root_connector) = Some ex_login_query"
  "conn_user (pooled_args ex_root_manager) = Str (ustr ''cn=svc'')"
  "conn_password (pooled_args ex_root_manager) = Str (ustr ''svcpw'')"
  "conn_user (direct_args ex_root_manager usr pw) = usr"
  "conn_password (direct_args ex_root_manager usr pw) = pw"
  "Connection_ok ex_root_ldap3 w a
     = (conn_user a = Str (ustr ''cn=svc'') \<and> conn_password a = Str (ustr ''svcpw''))"
  "search_ret ex_root_ldap3 w conn base flt sc atts = Some (length (calls w))"
  "get_response_ret ex_root_ldap3 w conn ret = Some (Some [ex_rootdse])"
  "exit_ok ex_root_ldap3 w conn"
  "unbind_ok ex_root_ldap3 w conn"
  "entry_dn ex_rootdse = Some (Str [])"
  "entry_attributes ex_rootdse = Some []"
  using ex_connector_sel(2)
  by (simp_all add: ex_root_manager_def ex_root_connector_def ex_root_ldap3_def ex_rootdse_def
        ex_manager_def pooled_args_def direct_args_def ex_connector_def Connector_init_def)

lemma ex_root_execute:
  "execute ex_login_query ex_root_manager (login_kw (Str (ustr ''alice'')) pw) ex_world
     = (Inr [(Str [], [])], ex_login_query,
        ex_world\<lparr>calls :=
           [Connect (pooled_args ex_root_manager),
            Search (pooled_args ex_root_manager) (ustr ''ou=people'') (ustr ''(uid=alice)'')
              LEVEL None,
            Get_response (pooled_args ex_root_manager) 1,
            Exit (pooled_args ex_root_manager)]\<rparr>)"
  by (simp add: execute_uncached_keyed [where b = "ustr ''ou=people''"]
        ex_query_sel ex_format_base ex_format_filter ex_world_sel
        search_with_connection_def connection_def Connection_def conn_search_def
        conn_get_response_def conn_exit_def record_call_def ex_root_sel)

text \<open>
  Claim C3 says that a single match is returned only when the direct bind as its
  distinguished name with the supplied password succeeds, and that \<^verbatim>\<open>None\<close> is
  returned when the directory rejects that bind. The code parts from it for a match
  whose distinguished name is the empty string. In the second directory the search
  for alice returns that one entry; the directory would reject the direct bind with
  the password \<^verbatim>\<open>wrong\<close>; yet \<^verbatim>\<open>authenticate\<close> returns the match, and the calls after the
  search are the pooled bind of the service account and its unbind.
\<close>

theorem authenticate_empty_dn_unverified:
  "fst (authenticate ex_root_connector (Str (ustr ''alice'')) (Str (ustr ''wrong'')) ex_world)
     = Inr (Some (Str [], []))
   \<and> \<not> Connection_ok ex_root_ldap3 ex_world
          (direct_args ex_root_manager (Str []) (Str (ustr ''wrong'')))
   \<and> calls (snd (snd
        (authenticate ex_root_connector (Str (ustr ''alice'')) (Str (ustr ''wrong'')) ex_world)))
     = [Connect (pooled_args ex_root_manager),
        Search (pooled_args ex_root_manager) (ustr ''ou=people'') (ustr ''(uid=alice)'')
          LEVEL None,
        Get_response (pooled_args ex_root_manager) 1,
        Exit (pooled_args ex_root_manager),
        Connect (pooled_args ex_root_manager),
        Unbind (pooled_args ex_root_manager)]"
proof -
  have password: "Str (ustr ''wrong'') \<noteq> Str []"
    by (simp add: ustr_def)
  have empty: "\<not> truthy (Str [])"
    by simp
  have found: "execute ex_login_query (manager ex_root_connector)
                 (login_kw (Str (ustr ''alice'')) (Str (ustr ''wrong''))) ex_world
     = (Inr [(Str [], [])], ex_login_query,
        ex_world\<lparr>calls :=
           [Connect (pooled_args ex_root_manager),
            Search (pooled_args ex_root_manager) (ustr ''ou=people'') (ustr ''(uid=alice)'')
              LEVEL None,
            Get_response (pooled_args ex_root_manager) 1,
            Exit (pooled_args ex_root_manager)]\<rparr>)"
    using ex_root_execute by (simp add: ex_root_sel)
  show ?thesis
    using authenticate_single_match_pooled [OF password ex_root_sel(3) found empty]
    by (simp add: ex_root_sel record_call_def ustr_def)
qed

text \<open>
  Claim C8, amended. For every realm, \<^verbatim>\<open>authenticate\<close> with a password other than the
  empty string raises \<^verbatim>\<open>ConfigurationError\<close> when the realm's login query is not in
  the registry, and \<^verbatim>\<open>user_groups\<close> raises it when the realm's groups query is not;
  the connector and the world are unchanged.
\<close>

theorem unregistered_query_raises:
  "(reg (registry_identifier (ustr ''ldap_login_query'') rlm) = None \<and> password \<noteq> Str [] \<longrightarrow>
      authenticate (Connector_init reg m rlm) login password w
        = (Inl ConfigurationError, Connector_init reg m rlm, w))
   \<and> (reg (registry_identifier (ustr ''ldap_groups_query'') rlm) = None \<longrightarrow>
      user_groups (Connector_init reg m rlm) userdn w
        = (Inl ConfigurationError, Connector_init reg m rlm, w))"
  by (simp add: authenticate_def user_groups_def Connector_init_def)

text \<open>
  The realm \<^verbatim>\<open>corp\<close> has no login query in a registry that holds the default
  realm's; the empty registry has no groups query.
\<close>

theorem unregistered_query_raises_witness:
  "ex_registry (registry_identifier (ustr ''ldap_login_query'') (Some (ustr ''corp''))) = None
   \<and> Str (ustr ''secret'') \<noteq> Str []
   \<and> fst (authenticate (Connector_init ex_registry ex_manager (Some (ustr ''corp'')))
            (Str (ustr ''alice'')) (Str (ustr ''secret'')) ex_world) = Inl ConfigurationError
   \<and> fst (user_groups (Connector_init Map.empty ex_manager None) (Str (ustr ''uid=alice'')) ex_world)
       = Inl ConfigurationError"
proof -
  have unregistered:
    "ex_registry (registry_identifier (ustr ''ldap_login_query'') (Some (ustr ''corp''))) = None"
    by (simp add: ex_registry_def ldap_set_login_query_def ldap_set_groups_query_def
          registry_identifier_def ustr_def)
  have password: "Str (ustr ''secret'') \<noteq> Str []"
    by (simp add: ustr_def)
  show ?thesis
    using unregistered password
      unregistered_query_raises [of ex_registry "Some (ustr ''corp'')" "Str (ustr ''secret'')"
        ex_manager "Str (ustr ''alice'')" ex_world]
      unregistered_query_raises [of Map.empty None _ ex_manager _ ex_world "Str (ustr ''uid=alice'')"]
    by simp
qed

text \<open>
  Claim C8 as stated fails for the empty password: over the empty registry
  \<^verbatim>\<open>authenticate\<close> returns \<^verbatim>\<open>None\<close> and raises nothing.
\<close>

theorem unregistered_query_counterexample:
  "(Map.empty :: registry) (registry_identifier (ustr ''ldap_login_query'') None) = None
   \<and> fst (authenticate (Connector_init Map.empty ex_manager None) (Str (ustr ''alice'')) (Str [])
            ex_world) = Inr None
   \<and> fst (authenticate (Connector_init Map.empty ex_manager None) (Str (ustr ''alice'')) (Str [])
            ex_world) \<noteq> Inl ConfigurationError"
  by (simp add: authenticate_def)

text \<open>
  Claim C6, amended. When the groups query raises \<^verbatim>\<open>LDAPException\<close>, \<^verbatim>\<open>user_groups\<close>
  returns \<^verbatim>\<open>None\<close> and raises nothing; any other error propagates; on success it
  returns the result sequence unchanged. A user without groups therefore gets the
  empty sequence, which is not \<^verbatim>\<open>None\<close>.
\<close>

theorem user_groups_result:
  assumes "registry self (group_qry_identif self) = Some search"
    and "execute search (manager self) [ustr ''userdn'' \<mapsto> escape_for_search userdn] w
           = (r, search1, w1)"
  shows "user_groups self userdn w =
           (case r of
              Inl e \<Rightarrow> if e = LDAPException then Inr None else Inl e
            | Inr result \<Rightarrow> Inr (Some result),
            self\<lparr>registry := (registry self)(group_qry_identif self \<mapsto> search1)\<rparr>, w1)
       \<and> (r = Inl LDAPException \<longrightarrow> fst (user_groups self userdn w) = Inr None)
       \<and> (r = Inr [] \<longrightarrow> fst (user_groups self userdn w) = Inr (Some [])
                          \<and> fst (user_groups self userdn w) \<noteq> Inr None)"
  using assms by (simp add: user_groups_def split: sum.splits)

text \<open>Carol's groups while the server is down, and while it is up.\<close>

theorem user_groups_result_witness:
  "fst (user_groups ex_connector (Str (ustr ''uid=carol'')) ex_world_down) = Inr None
   \<and> fst (user_groups ex_connector (Str (ustr ''uid=carol'')) ex_world) = Inr (Some [])"
  using user_groups_result [OF ex_connector_sel(3), of "Str (ustr ''uid=carol'')" ex_world_down,
          OF ex_execute_groups(2) [folded ex_connector_sel(1)]]
    user_groups_result [OF ex_connector_sel(3), of "Str (ustr ''uid=carol'')" ex_world,
          OF ex_execute_groups(1) [folded ex_connector_sel(1)]]
  by simp

text \<open>
  Claim C6 as stated fails where it says that the caller cannot tell a failed
  lookup from a user without groups: for the same user the failed lookup gives
  \<^verbatim>\<open>None\<close> and the successful empty one gives the empty sequence.
\<close>

theorem user_groups_counterexample:
  "fst (execute ex_groups_query ex_manager
          [ustr ''userdn'' \<mapsto> escape_for_search (Str (ustr ''uid=carol''))] ex_world_down)
     = Inl LDAPException
   \<and> fst (execute ex_groups_query ex_manager
          [ustr ''userdn'' \<mapsto> escape_for_search (Str (ustr ''uid=carol''))] ex_world)
     = Inr []
   \<and> fst (user_groups ex_connector (Str (ustr ''uid=carol'')) ex_world_down)
     \<noteq> fst (user_groups ex_connector (Str (ustr ''uid=carol'')) ex_world)"
  by (simp add: user_groups_def ex_connector_sel ex_execute_groups)

end
